theory Spec2Isabelle
  imports Main "HOL-Library.Char_ord" "HOL-Library.List_Lexorder" "HOL-Library.Product_Lexorder"
begin

section \<open>JSON values and Python dictionaries\<close>

text \<open>
  The value \<open>request.get_json()\<close> returns. Python parses a JSON integer to \<open>int\<close> and any
  other number to \<open>float\<close>; no function of \<open>app.py\<close> looks inside a float, so the type of
  floats is a parameter \<open>'f\<close>. Python's \<open>None\<close> is \<open>JNull\<close>. A \<open>dict\<close> keeps its keys in
  insertion order: an association list, read with \<open>map_of\<close>.
\<close>

datatype 'f json =
    JNull
  | JBool bool
  | JInt int
  | JFloat 'f
  | JStr string
  | JArr "'f json list"
  | JObj "(string \<times> 'f json) list"

type_synonym 'f dict = "(string \<times> 'f json) list"

text \<open>\<open>field in data\<close>\<close>

definition has_key :: "'f dict \<Rightarrow> string \<Rightarrow> bool" where
  "has_key data k = (map_of data k \<noteq> None)"

text \<open>\<open>data.get(k, default)\<close>; \<open>data.get(k)\<close> is \<open>data.get(k, None)\<close>.\<close>

definition dict_get :: "'f dict \<Rightarrow> string \<Rightarrow> 'f json \<Rightarrow> 'f json" where
  "dict_get data k dflt = (case map_of data k of None \<Rightarrow> dflt | Some v \<Rightarrow> v)"

section \<open>Timestamps\<close>

text \<open>
  A naive \<open>datetime\<close>, as \<open>datetime.now()\<close> returns it and as psycopg2 returns a
  \<open>TIMESTAMP\<close> column.
\<close>

record datetime =
  year :: nat
  month :: nat
  day :: nat
  hour :: nat
  minute :: nat
  second :: nat
  microsecond :: nat

definition digit :: "nat \<Rightarrow> char" where
  "digit n = ''0123456789'' ! (n mod 10)"

definition pad2 :: "nat \<Rightarrow> string" where
  "pad2 n = [digit (n div 10), digit n]"

definition pad4 :: "nat \<Rightarrow> string" where
  "pad4 n = [digit (n div 1000), digit (n div 100), digit (n div 10), digit n]"

definition pad6 :: "nat \<Rightarrow> string" where
  "pad6 n = [digit (n div 100000), digit (n div 10000), digit (n div 1000),
             digit (n div 100), digit (n div 10), digit n]"

text \<open>
  \<open>datetime.isoformat()\<close>: \<open>YYYY-MM-DDTHH:MM:SS\<close>, followed by \<open>.ffffff\<close> only when the
  microsecond field is not zero.
\<close>

definition isoformat :: "datetime \<Rightarrow> string" where
  "isoformat d =
     pad4 (year d) @ ''-'' @ pad2 (month d) @ ''-'' @ pad2 (day d) @ ''T'' @
     pad2 (hour d) @ '':'' @ pad2 (minute d) @ '':'' @ pad2 (second d) @
     (if microsecond d = 0 then [] else ''.'' @ pad6 (microsecond d))"

text \<open>\<open>timestamp.replace(':', '-')\<close>\<close>

definition replace_colons :: "string \<Rightarrow> string" where
  "replace_colons s = map (\<lambda>c. if c = CHR '':'' then CHR ''-'' else c) s"

text \<open>
  The name \<open>save_data\<close> gives the file of a reading, inside the directory \<open>data\<close>:
  \<open>f"{device_id}_{timestamp.replace(':', '-')}.json"\<close>.
\<close>

definition file_name :: "string \<Rightarrow> datetime \<Rightarrow> string" where
  "file_name dev d = dev @ ''_'' @ replace_colons (isoformat d) @ ''.json''"

text \<open>Comparison of two naive datetimes is the comparison of their fields in order.\<close>

definition dt_key :: "datetime \<Rightarrow> nat \<times> nat \<times> nat \<times> nat \<times> nat \<times> nat \<times> nat" where
  "dt_key d = (year d, month d, day d, hour d, minute d, second d, microsecond d)"

text \<open>
  The calendar of Python's \<open>datetime\<close>: a datetime is valid when its fields are in range,
  \<open>toordinal\<close> numbers the days from 0001-01-01, and the difference of two datetimes is
  the difference of their microsecond counts.
\<close>

definition is_leap :: "nat \<Rightarrow> bool" where
  "is_leap y = (y mod 4 = 0 \<and> (y mod 100 \<noteq> 0 \<or> y mod 400 = 0))"

definition days_before_year :: "nat \<Rightarrow> nat" where
  "days_before_year y = (let z = y - 1 in z * 365 + z div 4 - z div 100 + z div 400)"

definition days_in_month :: "nat \<Rightarrow> nat \<Rightarrow> nat" where
  "days_in_month y m =
     (if m = 2 \<and> is_leap y then 29
      else [0, 31, 28, 31, 30, 31, 30, 31, 31, 30, 31, 30, 31] ! m)"

definition days_before_month :: "nat \<Rightarrow> nat \<Rightarrow> nat" where
  "days_before_month y m =
     [0, 0, 31, 59, 90, 120, 151, 181, 212, 243, 273, 304, 334] ! m +
     (if m > 2 \<and> is_leap y then 1 else 0)"

definition toordinal :: "datetime \<Rightarrow> nat" where
  "toordinal d = days_before_year (year d) + days_before_month (year d) (month d) + day d"

definition valid_datetime :: "datetime \<Rightarrow> bool" where
  "valid_datetime d =
     (1 \<le> year d \<and> year d \<le> 9999 \<and> 1 \<le> month d \<and> month d \<le> 12 \<and>
      1 \<le> day d \<and> day d \<le> days_in_month (year d) (month d) \<and>
      hour d < 24 \<and> minute d < 60 \<and> second d < 60 \<and> microsecond d < 1000000)"

definition total_microseconds :: "datetime \<Rightarrow> nat" where
  "total_microseconds d =
     (((toordinal d * 24 + hour d) * 60 + minute d) * 60 + second d) * 1000000 + microsecond d"

text \<open>
  The timestamp inside a file name splits into the part down to the second, which has 19
  characters, and the fraction, which is empty when the microsecond field is zero.
\<close>

definition stamp_seconds :: "datetime \<Rightarrow> string" where
  "stamp_seconds d =
     pad4 (year d) @ ''-'' @ pad2 (month d) @ ''-'' @ pad2 (day d) @ ''T'' @
     pad2 (hour d) @ ''-'' @ pad2 (minute d) @ ''-'' @ pad2 (second d)"

definition stamp_fraction :: "datetime \<Rightarrow> string" where
  "stamp_fraction d = (if microsecond d = 0 then [] else ''.'' @ pad6 (microsecond d))"

definition whole_second :: "datetime \<Rightarrow> nat \<times> nat \<times> nat \<times> nat \<times> nat \<times> nat" where
  "whole_second d = (year d, month d, day d, hour d, minute d, second d)"

definition year_length :: "nat \<Rightarrow> nat" where
  "year_length y = (if is_leap y then 366 else 365)"

definition seconds_since :: "datetime \<Rightarrow> nat" where
  "seconds_since d = ((toordinal d * 24 + hour d) * 60 + minute d) * 60 + second d"

section \<open>The world outside the process\<close>

text \<open>A row of the table \<open>sensor_data\<close> created by \<open>init_db\<close>; \<open>None\<close> is SQL \<open>NULL\<close>.\<close>

record 'f row =
  row_id :: nat
  row_device_id :: string
  row_temperature :: "'f option"
  row_humidity :: "'f option"
  row_flow_rate :: "'f option"
  row_flow_direction :: "int option"
  row_latitude :: "'f option"
  row_longitude :: "'f option"
  row_timestamp :: datetime

text \<open>
  The state the handlers act on: the environment variable \<open>DATABASE_URL\<close>, the table, its
  \<open>SERIAL\<close> counter, the files (path and parsed content), and the number of database
  connections that were opened and not closed.
\<close>

record 'f world =
  database_url :: string
  sensor_data :: "'f row list"
  next_id :: nat
  files :: "(string \<times> 'f json) list"
  open_conns :: nat

datatype db_step = Connect | Cursor | Execute | Commit | CursorClose | Fetch

datatype fs_step = ListDir | OpenFile

text \<open>
  What one request meets and the program does not decide: the clock readings, the call
  at which the database driver or the file system raises (if any), which of several rows
  with the same greatest timestamp the server returns first, how Python prints a value
  that is not a string, and how the server converts a bound value to a column type
  (\<open>None\<close>: it rejects the statement).
\<close>

record 'f env =
  clock :: datetime
  clock_response :: datetime
  db_fault :: "db_step option"
  fs_fault :: "fs_step option"
  tie_break :: nat
  py_repr :: "'f json \<Rightarrow> string"
  pg_varchar :: "'f json \<Rightarrow> string option"
  pg_float :: "'f json \<Rightarrow> 'f option"
  pg_int :: "'f json \<Rightarrow> int option"

datatype exn = OperationalError

datatype conn = Conn

type_synonym 'f response = "'f json \<times> nat"

section \<open>Python and SQL primitives used by the handlers\<close>

text \<open>The text an f-string puts for a value.\<close>

fun format_value :: "'f env \<Rightarrow> 'f json \<Rightarrow> string" where
  "format_value env (JStr s) = s"
| "format_value env JNull = ''None''"
| "format_value env (JBool b) = (if b then ''True'' else ''False'')"
| "format_value env v = py_repr env v"

text \<open>\<open>open(path, 'w')\<close> followed by \<open>json.dump\<close>: the file is created or replaced.\<close>

fun write_file :: "string \<Rightarrow> 'a \<Rightarrow> (string \<times> 'a) list \<Rightarrow> (string \<times> 'a) list" where
  "write_file p c [] = [(p, c)]"
| "write_file p c ((q, d) # fs) =
     (if q = p then (p, c) # fs else (q, d) # write_file p c fs)"

text \<open>\<open>os.listdir(dir)\<close>: the names of the files directly inside \<open>dir\<close>.\<close>

definition listdir :: "string \<Rightarrow> (string \<times> 'a) list \<Rightarrow> string list" where
  "listdir dir fs =
     (let n = length dir + 1 in
      map (drop n) (filter (\<lambda>p. take n p = dir @ ''/'' \<and> CHR ''/'' \<notin> set (drop n p)) (map fst fs)))"

text \<open>\<open>f.startswith(prefix)\<close>\<close>

definition startswith :: "string \<Rightarrow> string \<Rightarrow> bool" where
  "startswith f pre = (take (length pre) f = pre)"

text \<open>\<open>max(xs)\<close>, which raises \<open>ValueError\<close> on an empty list.\<close>

fun py_max :: "'a::linorder list \<Rightarrow> 'a option" where
  "py_max [] = None"
| "py_max (x # xs) = Some (fold max xs x)"

text \<open>A bound parameter of a nullable column: \<open>None\<close> is stored as \<open>NULL\<close>.\<close>

definition bind_float :: "'f env \<Rightarrow> 'f json \<Rightarrow> 'f option option" where
  "bind_float env v = (if v = JNull then Some None else map_option Some (pg_float env v))"

definition bind_int :: "'f env \<Rightarrow> 'f json \<Rightarrow> int option option" where
  "bind_int env v = (if v = JNull then Some None else map_option Some (pg_int env v))"

text \<open>
  The \<open>INSERT\<close> of \<open>save_data\<close>: the new row, or \<open>None\<close> when the server rejects the
  statement. \<open>device_id\<close> is \<open>NOT NULL\<close>; \<open>id\<close> and \<open>timestamp\<close> take their defaults.
\<close>

definition sql_insert ::
  "'f env \<Rightarrow> nat \<Rightarrow> 'f json \<Rightarrow> 'f json \<Rightarrow> 'f json \<Rightarrow> 'f json \<Rightarrow> 'f json \<Rightarrow> 'f json \<Rightarrow> 'f json
     \<Rightarrow> 'f row option" where
  "sql_insert env rid device_id temperature humidity flow_rate flow_direction latitude longitude =
     (if device_id = JNull then None
      else
        Option.bind (pg_varchar env device_id) (\<lambda>d.
        Option.bind (bind_float env temperature) (\<lambda>t.
        Option.bind (bind_float env humidity) (\<lambda>h.
        Option.bind (bind_float env flow_rate) (\<lambda>fr.
        Option.bind (bind_int env flow_direction) (\<lambda>fd.
        Option.bind (bind_float env latitude) (\<lambda>la.
        Option.bind (bind_float env longitude) (\<lambda>lo.
          Some \<lparr>row_id = rid, row_device_id = d, row_temperature = t, row_humidity = h,
                row_flow_rate = fr, row_flow_direction = fd, row_latitude = la,
                row_longitude = lo, row_timestamp = clock env\<rparr>))))))))"

text \<open>
  The \<open>SELECT ... WHERE device_id = %s ORDER BY timestamp DESC LIMIT 1\<close> of
  \<open>get_latest_data\<close>: the rows of the device whose timestamp is greatest. The server
  returns one of them.
\<close>

definition select_latest :: "'f row list \<Rightarrow> string \<Rightarrow> 'f row list" where
  "select_latest tbl device_id =
     (let ms = filter (\<lambda>r. row_device_id r = device_id) tbl
      in filter (\<lambda>r. \<forall>r' \<in> set ms. dt_key (row_timestamp r') \<le> dt_key (row_timestamp r)) ms)"

definition fetchone :: "'f env \<Rightarrow> 'f row list \<Rightarrow> 'f row option" where
  "fetchone env rs = (if rs = [] then None else Some (rs ! (tie_break env mod length rs)))"

definition opt_float :: "'f option \<Rightarrow> 'f json" where
  "opt_float x = (case x of None \<Rightarrow> JNull | Some v \<Rightarrow> JFloat v)"

definition opt_int :: "int option \<Rightarrow> 'f json" where
  "opt_int x = (case x of None \<Rightarrow> JNull | Some v \<Rightarrow> JInt v)"

section \<open>app.py\<close>

definition get_db_connection :: "'f env \<Rightarrow> 'f world \<Rightarrow> (exn + conn option) \<times> 'f world" where
  "get_db_connection env w =
     (if database_url w \<noteq> [] then
        (if db_fault env = Some Connect then (Inl OperationalError, w)
         else (Inr (Some Conn), w\<lparr>open_conns := Suc (open_conns w)\<rparr>))
      else (Inr None, w))"

definition conn_close :: "'f world \<Rightarrow> 'f world" where
  "conn_close w = w\<lparr>open_conns := open_conns w - 1\<rparr>"

definition save_data :: "'f env \<Rightarrow> 'f dict \<Rightarrow> 'f world \<Rightarrow> (exn + bool) \<times> 'f world" where
  "save_data env data w =
     (let device_id = dict_get data ''device_id'' (JStr ''unknown'') in
      case get_db_connection env w of
        (Inl e, w1) \<Rightarrow> (Inl e, w1)
      | (Inr (Some c), w1) \<Rightarrow>
          if db_fault env = Some Cursor \<or> db_fault env = Some Execute then (Inr False, w1)
          else
            (case sql_insert env (next_id w1) device_id
                    (dict_get data ''temperature'' JNull)
                    (dict_get data ''humidity'' JNull)
                    (dict_get data ''flow_rate'' JNull)
                    (dict_get data ''flow_direction'' JNull)
                    (dict_get data ''latitude'' JNull)
                    (dict_get data ''longitude'' JNull) of
               None \<Rightarrow> (Inr False, w1)
             | Some r \<Rightarrow>
                 if db_fault env = Some Commit then (Inr False, w1)
                 else
                   let w2 = w1\<lparr>sensor_data := sensor_data w1 @ [r], next_id := Suc (next_id w1)\<rparr>
                   in if db_fault env = Some CursorClose then (Inr False, w2)
                      else (Inr True, conn_close w2))
      | (Inr None, w1) \<Rightarrow>
          let filename = ''data/'' @ file_name (format_value env device_id) (clock env)
          in if fs_fault env = Some OpenFile then (Inr False, w1)
             else (Inr True, w1\<lparr>files := write_file filename (JObj data) (files w1)\<rparr>))"

definition required_fields :: "string list" where
  "required_fields = [''device_id'', ''temperature'', ''humidity'', ''flow_rate'']"

text \<open>
  \<open>POST /api/sensor-data\<close>, for a request whose body is a JSON object. An exception that
  no \<open>except\<close> clause of \<open>app.py\<close> catches leaves the handler (\<open>Inl\<close>).
\<close>

definition receive_sensor_data ::
  "'f env \<Rightarrow> 'f dict \<Rightarrow> 'f world \<Rightarrow> (exn + 'f response) \<times> 'f world" where
  "receive_sensor_data env data w =
     (if \<not> list_all (\<lambda>field. has_key data field) required_fields
      then (Inr (JObj [(''error'', JStr ''Missing required fields'')], 400), w)
      else
        case save_data env data w of
          (Inl e, w1) \<Rightarrow> (Inl e, w1)
        | (Inr True, w1) \<Rightarrow>
            (Inr (JObj [(''message'', JStr ''Data received successfully''),
                        (''timestamp'', JStr (isoformat (clock_response env))),
                        (''data'', JObj data)], 200), w1)
        | (Inr False, w1) \<Rightarrow> (Inr (JObj [(''error'', JStr ''Failed to save data'')], 500), w1))"

text \<open>\<open>GET /api/sensor-data/<device_id>\<close>\<close>

definition get_latest_data ::
  "'f env \<Rightarrow> string \<Rightarrow> 'f world \<Rightarrow> (exn + 'f response) \<times> 'f world" where
  "get_latest_data env device_id w =
     (case get_db_connection env w of
        (Inl e, w1) \<Rightarrow> (Inl e, w1)
      | (Inr (Some c), w1) \<Rightarrow>
          (if db_fault env = Some Cursor \<or> db_fault env = Some Execute \<or> db_fault env = Some Fetch
           then (Inr (JObj [(''error'', JStr ''Database error'')], 500), conn_close w1)
           else
             case fetchone env (select_latest (sensor_data w1) device_id) of
               Some r \<Rightarrow>
                 (Inr (JObj [(''device_id'', JStr device_id),
                             (''temperature'', opt_float (row_temperature r)),
                             (''humidity'', opt_float (row_humidity r)),
                             (''flow_rate'', opt_float (row_flow_rate r)),
                             (''flow_direction'', opt_int (row_flow_direction r)),
                             (''latitude'', opt_float (row_latitude r)),
                             (''longitude'', opt_float (row_longitude r)),
                             (''timestamp'', JStr (isoformat (row_timestamp r)))], 200),
                  conn_close w1)
             | None \<Rightarrow>
                 (Inr (JObj [(''error'', JStr ''No data found for device'')], 404), conn_close w1))
      | (Inr None, w1) \<Rightarrow>
          (if fs_fault env = Some ListDir
           then (Inr (JObj [(''error'', JStr ''Error retrieving data'')], 500), w1)
           else
             let device_files = filter (\<lambda>f. startswith f (device_id @ ''_'')) (listdir ''data'' (files w1))
             in case py_max device_files of
                  None \<Rightarrow> (Inr (JObj [(''error'', JStr ''No data found for device'')], 404), w1)
                | Some latest_file \<Rightarrow>
                    (if fs_fault env = Some OpenFile
                     then (Inr (JObj [(''error'', JStr ''Error retrieving data'')], 500), w1)
                     else
                       case map_of (files w1) (''data/'' @ latest_file) of
                         Some data \<Rightarrow> (Inr (data, 200), w1)
                       | None \<Rightarrow> (Inr (JObj [(''error'', JStr ''Error retrieving data'')], 500), w1))))"

section \<open>Concrete requests\<close>

text \<open>
  A clock reading, an environment without faults (with floats read as integers), the two
  initial worlds (file fallback and relational), and three request bodies.
\<close>

definition noon :: datetime where
  "noon = \<lparr>year = 2024, month = 1, day = 1, hour = 12, minute = 0, second = 0, microsecond = 0\<rparr>"

definition plain_env :: "int env" where
  "plain_env =
     \<lparr>clock = noon, clock_response = noon, db_fault = None, fs_fault = None, tie_break = 0,
      py_repr = (\<lambda>v. ''?''),
      pg_varchar = (\<lambda>v. case v of JStr s \<Rightarrow> if length s \<le> 50 then Some s else None | _ \<Rightarrow> None),
      pg_float = (\<lambda>v. case v of JInt i \<Rightarrow> Some i | JFloat x \<Rightarrow> Some x | _ \<Rightarrow> None),
      pg_int = (\<lambda>v. case v of JInt i \<Rightarrow> Some i | _ \<Rightarrow> None)\<rparr>"

definition file_world :: "int world" where
  "file_world = \<lparr>database_url = [], sensor_data = [], next_id = 1, files = [], open_conns = 0\<rparr>"

definition db_world :: "int world" where
  "db_world = \<lparr>database_url = ''postgres://u:p@h:5432/d'', sensor_data = [], next_id = 1,
                 files = [], open_conns = 0\<rparr>"

definition reading :: "string \<Rightarrow> int \<Rightarrow> int dict" where
  "reading dev t =
     [(''device_id'', JStr dev), (''temperature'', JInt t), (''humidity'', JInt 40),
      (''flow_rate'', JInt 7)]"

definition reading_no_humidity :: "int dict" where
  "reading_no_humidity =
     [(''device_id'', JStr ''pump1''), (''temperature'', JInt 21), (''flow_rate'', JInt 7)]"

definition reading_null_temperature :: "int dict" where
  "reading_null_temperature =
     [(''device_id'', JStr ''pump1''), (''temperature'', JNull), (''humidity'', JInt 40),
      (''flow_rate'', JInt 7)]"

text \<open>Two clock readings half a second either side of midnight, on a leap day.\<close>

definition half_past :: datetime where
  "half_past = \<lparr>year = 2024, month = 2, day = 29, hour = 23, minute = 59, second = 59,
                 microsecond = 500000\<rparr>"

definition next_day :: datetime where
  "next_day = \<lparr>year = 2024, month = 3, day = 1, hour = 0, minute = 0, second = 0,
                microsecond = 500000\<rparr>"

text \<open>
  Half a second after \<open>noon\<close>; the row the relational backend stores for \<open>reading dev x\<close>;
  the two worlds after one reading of \<open>pump1\<close> was posted at \<open>noon\<close>.
\<close>

definition noon_half :: datetime where
  "noon_half = \<lparr>year = 2024, month = 1, day = 1, hour = 12, minute = 0, second = 0,
                 microsecond = 500000\<rparr>"

definition reading_row :: "string \<Rightarrow> nat \<Rightarrow> int \<Rightarrow> datetime \<Rightarrow> int row" where
  "reading_row dev n x t =
     \<lparr>row_id = n, row_device_id = dev, row_temperature = Some x, row_humidity = Some 40,
      row_flow_rate = Some 7, row_flow_direction = None, row_latitude = None,
      row_longitude = None, row_timestamp = t\<rparr>"

definition file_world_pump1 :: "int world" where
  "file_world_pump1 =
     file_world\<lparr>files := [(''data/pump1_2024-01-01T12-00-00.json'', JObj (reading ''pump1'' 21))]\<rparr>"

definition db_world_pump1 :: "int world" where
  "db_world_pump1 = db_world\<lparr>sensor_data := [reading_row ''pump1'' 1 21 noon], next_id := 2\<rparr>"

text \<open>The file fallback after one reading of device \<open>a_b\<close> was saved at \<open>noon\<close>.\<close>

definition file_world_a_b :: "int world" where
  "file_world_a_b =
     file_world\<lparr>files := [(''data/a_b_2024-01-01T12-00-00.json'', JObj (reading ''a_b'' 21))]\<rparr>"

section \<open>Validation\<close>

lemma required_fields_all:
  "list_all (\<lambda>field. has_key data field) required_fields =
     (has_key data ''device_id'' \<and> has_key data ''temperature'' \<and>
      has_key data ''humidity'' \<and> has_key data ''flow_rate'')"
  by (simp add: required_fields_def)

lemma receive_sensor_data_forwards:
  assumes "has_key data ''device_id''" "has_key data ''temperature''"
    "has_key data ''humidity''" "has_key data ''flow_rate''"
  shows "receive_sensor_data env data w =
     (case save_data env data w of
        (Inl e, w1) \<Rightarrow> (Inl e, w1)
      | (Inr True, w1) \<Rightarrow>
          (Inr (JObj [(''message'', JStr ''Data received successfully''),
                      (''timestamp'', JStr (isoformat (clock_response env))),
                      (''data'', JObj data)], 200), w1)
      | (Inr False, w1) \<Rightarrow> (Inr (JObj [(''error'', JStr ''Failed to save data'')], 500), w1))"
  using assms by (simp add: receive_sensor_data_def required_fields_all)

text \<open>
  C2. A JSON-object payload that lacks one of the keys \<open>device_id\<close>, \<open>temperature\<close>,
  \<open>humidity\<close>, \<open>flow_rate\<close> is answered with status 400 and the body
  \<open>{"error": "Missing required fields"}\<close>, and the world (table, files, connections) is
  left as it was: the storage layer is not called. A payload that has all four keys
  passes validation: the world after the request is the one \<open>save_data\<close> leaves for this
  payload, and the answer is not a 400.
\<close>

theorem validation_by_key_presence:
  "(\<not> (has_key data ''device_id'' \<and> has_key data ''temperature'' \<and>
        has_key data ''humidity'' \<and> has_key data ''flow_rate'') \<longrightarrow>
      receive_sensor_data env data w =
        (Inr (JObj [(''error'', JStr ''Missing required fields'')], 400), w)) \<and>
   (has_key data ''device_id'' \<and> has_key data ''temperature'' \<and>
    has_key data ''humidity'' \<and> has_key data ''flow_rate'' \<longrightarrow>
      snd (receive_sensor_data env data w) = snd (save_data env data w) \<and>
      (\<forall>body. fst (receive_sensor_data env data w) \<noteq> Inr (body, 400)))"
proof (intro conjI impI)
  assume "\<not> (has_key data ''device_id'' \<and> has_key data ''temperature'' \<and>
        has_key data ''humidity'' \<and> has_key data ''flow_rate'')"
  then show "receive_sensor_data env data w =
        (Inr (JObj [(''error'', JStr ''Missing required fields'')], 400), w)"
    by (simp add: receive_sensor_data_def required_fields_all)
next
  assume a: "has_key data ''device_id'' \<and> has_key data ''temperature'' \<and>
    has_key data ''humidity'' \<and> has_key data ''flow_rate''"
  then have eq: "receive_sensor_data env data w =
     (case save_data env data w of
        (Inl e, w1) \<Rightarrow> (Inl e, w1)
      | (Inr True, w1) \<Rightarrow>
          (Inr (JObj [(''message'', JStr ''Data received successfully''),
                      (''timestamp'', JStr (isoformat (clock_response env))),
                      (''data'', JObj data)], 200), w1)
      | (Inr False, w1) \<Rightarrow> (Inr (JObj [(''error'', JStr ''Failed to save data'')], 500), w1))"
    by (simp add: receive_sensor_data_forwards)
  show "snd (receive_sensor_data env data w) = snd (save_data env data w)"
    unfolding eq by (simp split: prod.splits sum.splits bool.splits)
  show "\<forall>body. fst (receive_sensor_data env data w) \<noteq> Inr (body, 400)"
    unfolding eq by (simp split: prod.splits sum.splits bool.splits)
qed

theorem validation_by_key_presence_witness:
  "receive_sensor_data plain_env reading_no_humidity file_world =
     (Inr (JObj [(''error'', JStr ''Missing required fields'')], 400), file_world) \<and>
   snd (receive_sensor_data plain_env (reading ''pump1'' 21) file_world) =
     snd (save_data plain_env (reading ''pump1'' 21) file_world) \<and>
   fst (receive_sensor_data plain_env (reading ''pump1'' 21) file_world) \<noteq>
     Inr (JObj [(''error'', JStr ''Missing required fields'')], 400)"
  using validation_by_key_presence [of reading_no_humidity plain_env file_world]
    validation_by_key_presence [of "reading ''pump1'' 21" plain_env file_world]
  by (simp add: has_key_def reading_def reading_no_humidity_def)

section \<open>Saving\<close>

lemma save_data_file:
  "database_url w = [] \<Longrightarrow>
   save_data env data w =
     (if fs_fault env = Some OpenFile then (Inr False, w)
      else (Inr True,
            w\<lparr>files := write_file
               (''data/'' @ file_name (format_value env (dict_get data ''device_id'' (JStr ''unknown'')))
                  (clock env))
               (JObj data) (files w)\<rparr>))"
  by (simp add: save_data_def get_db_connection_def Let_def)

lemma save_data_db_fault:
  assumes "database_url w \<noteq> []"
    and "db_fault env = Some Cursor \<or> db_fault env = Some Execute"
  shows "save_data env data w = (Inr False, w\<lparr>open_conns := Suc (open_conns w)\<rparr>)"
  using assms by (auto simp add: save_data_def get_db_connection_def Let_def)

text \<open>
  C4. When the payload has the four required keys and \<open>save_data\<close> returns \<open>True\<close>, the
  answer to the POST has status 200 and its \<open>data\<close> field is the payload object itself,
  with every key it came with.
\<close>

theorem echo_on_success:
  assumes "has_key data ''device_id''" "has_key data ''temperature''"
    "has_key data ''humidity''" "has_key data ''flow_rate''"
    and "fst (save_data env data w) = Inr True"
  shows "fst (receive_sensor_data env data w) =
           Inr (JObj [(''message'', JStr ''Data received successfully''),
                      (''timestamp'', JStr (isoformat (clock_response env))),
                      (''data'', JObj data)], 200)"
  using assms(5) unfolding receive_sensor_data_forwards [OF assms(1-4)]
  by (cases "save_data env data w") auto

theorem echo_on_success_witness:
  "fst (receive_sensor_data plain_env ((''note'', JStr ''extra'') # reading ''pump1'' 21) db_world) =
     Inr (JObj [(''message'', JStr ''Data received successfully''),
                (''timestamp'', JStr (isoformat (clock_response plain_env))),
                (''data'', JObj ((''note'', JStr ''extra'') # reading ''pump1'' 21))], 200)"
proof -
  let ?d = "(''note'', JStr ''extra'') # reading ''pump1'' 21"
  have k: "has_key ?d ''device_id''" "has_key ?d ''temperature''"
    "has_key ?d ''humidity''" "has_key ?d ''flow_rate''"
    by (simp_all add: has_key_def reading_def)
  have s: "fst (save_data plain_env ?d db_world) = Inr True"
    by (simp add: save_data_def get_db_connection_def db_world_def plain_env_def noon_def
        sql_insert_def reading_def dict_get_def bind_float_def bind_int_def conn_close_def)
  show ?thesis using echo_on_success [OF k s] .
qed

text \<open>
  C3, as the code has it. Validation looks at the presence of the four keys only. A
  payload that has them all is never answered 400, whatever their values, \<open>null\<close>
  included; when its \<open>device_id\<close> is not \<open>null\<close>, under the file fallback and when the
  file can be opened, it is written to its file as it came and answered with status
  200, also with a \<open>null\<close> temperature, humidity or flow rate.
\<close>

theorem null_value_is_stored:
  assumes "has_key data ''device_id''" "has_key data ''temperature''"
    "has_key data ''humidity''" "has_key data ''flow_rate''"
  shows "(\<forall>body. fst (receive_sensor_data env data w) \<noteq> Inr (body, 400)) \<and>
    (dict_get data ''device_id'' (JStr ''unknown'') \<noteq> JNull \<and>
     database_url w = [] \<and> fs_fault env \<noteq> Some OpenFile \<longrightarrow>
     receive_sensor_data env data w =
       (Inr (JObj [(''message'', JStr ''Data received successfully''),
                   (''timestamp'', JStr (isoformat (clock_response env))),
                   (''data'', JObj data)], 200),
        w\<lparr>files := write_file
            (''data/'' @ file_name (format_value env (dict_get data ''device_id'' (JStr ''unknown'')))
               (clock env))
            (JObj data) (files w)\<rparr>))"
proof (intro conjI impI)
  show "\<forall>body. fst (receive_sensor_data env data w) \<noteq> Inr (body, 400)"
    unfolding receive_sensor_data_forwards [OF assms]
    by (simp split: prod.splits sum.splits bool.splits)
next
  assume "dict_get data ''device_id'' (JStr ''unknown'') \<noteq> JNull \<and>
     database_url w = [] \<and> fs_fault env \<noteq> Some OpenFile"
  then show "receive_sensor_data env data w =
       (Inr (JObj [(''message'', JStr ''Data received successfully''),
                   (''timestamp'', JStr (isoformat (clock_response env))),
                   (''data'', JObj data)], 200),
        w\<lparr>files := write_file
            (''data/'' @ file_name (format_value env (dict_get data ''device_id'' (JStr ''unknown'')))
               (clock env))
            (JObj data) (files w)\<rparr>)"
    unfolding receive_sensor_data_forwards [OF assms] by (simp add: save_data_file)
qed

theorem null_value_is_stored_witness:
  "map_of reading_null_temperature ''temperature'' = Some JNull \<and>
   fst (receive_sensor_data plain_env reading_null_temperature db_world) \<noteq>
     Inr (JObj [(''error'', JStr ''Missing required fields'')], 400) \<and>
   receive_sensor_data plain_env reading_null_temperature file_world =
     (Inr (JObj [(''message'', JStr ''Data received successfully''),
                 (''timestamp'', JStr ''2024-01-01T12:00:00''),
                 (''data'', JObj reading_null_temperature)], 200),
      file_world\<lparr>files :=
        [(''data/pump1_2024-01-01T12-00-00.json'', JObj reading_null_temperature)]\<rparr>)"
proof -
  have k: "has_key reading_null_temperature ''device_id''"
    "has_key reading_null_temperature ''temperature''"
    "has_key reading_null_temperature ''humidity''"
    "has_key reading_null_temperature ''flow_rate''"
    by (simp_all add: has_key_def reading_null_temperature_def)
  have u: "dict_get reading_null_temperature ''device_id'' (JStr ''unknown'') \<noteq> JNull \<and>
      database_url file_world = [] \<and> fs_fault plain_env \<noteq> Some OpenFile"
    by (simp add: file_world_def plain_env_def dict_get_def reading_null_temperature_def)
  have n: "map_of reading_null_temperature ''temperature'' = Some JNull"
    by (simp add: reading_null_temperature_def)
  have fn: "file_name ''pump1'' noon = ''pump1_2024-01-01T12-00-00.json''"
    by (simp add: file_name_def isoformat_def replace_colons_def noon_def pad2_def pad4_def
        digit_def)
  have iso: "isoformat noon = ''2024-01-01T12:00:00''"
    by (simp add: isoformat_def noon_def pad2_def pad4_def digit_def)
  have dev: "dict_get reading_null_temperature ''device_id'' (JStr ''unknown'') = JStr ''pump1''"
    by (simp add: dict_get_def reading_null_temperature_def)
  have c: "clock plain_env = noon" "clock_response plain_env = noon"
    by (simp_all add: plain_env_def)
  have fw: "files file_world = []" by (simp add: file_world_def)
  have a: "fst (receive_sensor_data plain_env reading_null_temperature db_world) \<noteq>
     Inr (JObj [(''error'', JStr ''Missing required fields'')], 400)"
    using null_value_is_stored [OF k, of plain_env db_world] by blast
  have b: "receive_sensor_data plain_env reading_null_temperature file_world =
     (Inr (JObj [(''message'', JStr ''Data received successfully''),
                 (''timestamp'', JStr ''2024-01-01T12:00:00''),
                 (''data'', JObj reading_null_temperature)], 200),
      file_world\<lparr>files :=
        [(''data/pump1_2024-01-01T12-00-00.json'', JObj reading_null_temperature)]\<rparr>)"
    using null_value_is_stored [OF k, of plain_env file_world] u
    by (simp add: dev c fn iso fw)
  show ?thesis using n a b by simp
qed

text \<open>
  C3, as the claim states it, fails: a payload whose \<open>temperature\<close> is \<open>null\<close> is not
  answered 400 but 200, and its file is written.
\<close>

theorem null_value_not_rejected:
  "\<not> (\<forall>data :: int dict.
        (\<exists>k \<in> set required_fields. map_of data k = Some JNull) \<longrightarrow>
        (\<exists>body. fst (receive_sensor_data plain_env data file_world) = Inr (body, 400)) \<and>
        files (snd (receive_sensor_data plain_env data file_world)) = files file_world)"
proof
  assume a: "\<forall>data :: int dict.
        (\<exists>k \<in> set required_fields. map_of data k = Some JNull) \<longrightarrow>
        (\<exists>body. fst (receive_sensor_data plain_env data file_world) = Inr (body, 400)) \<and>
        files (snd (receive_sensor_data plain_env data file_world)) = files file_world"
  have n: "\<exists>k \<in> set required_fields. map_of reading_null_temperature k = Some JNull"
    by (simp add: required_fields_def reading_null_temperature_def)
  have r: "receive_sensor_data plain_env reading_null_temperature file_world =
     (Inr (JObj [(''message'', JStr ''Data received successfully''),
                 (''timestamp'', JStr ''2024-01-01T12:00:00''),
                 (''data'', JObj reading_null_temperature)], 200),
      file_world\<lparr>files :=
        [(''data/pump1_2024-01-01T12-00-00.json'', JObj reading_null_temperature)]\<rparr>)"
    by (simp add: receive_sensor_data_def required_fields_def has_key_def save_data_file
        file_world_def plain_env_def reading_null_temperature_def dict_get_def
        file_name_def isoformat_def replace_colons_def noon_def pad2_def pad4_def digit_def)
  from a n have "\<exists>body. fst (receive_sensor_data plain_env reading_null_temperature file_world) =
      Inr (body, 400)"
    by blast
  then show False by (simp add: r)
qed

text \<open>
  C6 fails on the code. With \<open>DATABASE_URL\<close> set, when \<open>execute\<close> raises inside
  \<open>save_data\<close>, the function returns \<open>False\<close> and the connection it opened stays open;
  at the same fault \<open>get_latest_data\<close> closes its connection.
\<close>

theorem save_data_leaks_connection:
  "save_data (plain_env\<lparr>db_fault := Some Execute\<rparr>) (reading ''pump1'' 21) db_world =
     (Inr False, db_world\<lparr>open_conns := 1\<rparr>) \<and>
   get_latest_data (plain_env\<lparr>db_fault := Some Execute\<rparr>) ''pump1'' db_world =
     (Inr (JObj [(''error'', JStr ''Database error'')], 500), db_world)"
  by (simp add: save_data_db_fault get_latest_data_def get_db_connection_def conn_close_def
      db_world_def plain_env_def)

section \<open>The order of file names\<close>

lemma below_ten: "n < 10 \<Longrightarrow> n \<in> {0, 1, 2, 3, 4, 5, 6, 7, 8, 9 :: nat}"
  by simp arith

lemma of_char_digit: "n < 10 \<Longrightarrow> of_char (digit n) = (48 + n :: nat)"
  by (drule below_ten) (auto simp add: digit_def)

lemma digit_mod: "digit (n mod 10) = digit n"
  by (simp add: digit_def)

lemma digit_less_iff: "a < 10 \<Longrightarrow> b < 10 \<Longrightarrow> (digit a < digit b) = (a < b)"
  by (simp add: less_char_def of_char_digit)

lemma digit_eq_iff:
  assumes "a < 10" "b < 10" shows "(digit a = digit b) = (a = b)"
proof
  assume "digit a = digit b"
  then have "(of_char (digit a) :: nat) = of_char (digit b)" by simp
  then show "a = b" using assms by (simp add: of_char_digit)
qed simp

lemma digit_not_colon: "digit n \<noteq> CHR '':''"
proof
  assume "digit n = CHR '':''"
  then have "of_char (digit (n mod 10)) = (of_char (CHR '':'') :: nat)"
    by (simp add: digit_mod)
  then show False by (simp add: of_char_digit)
qed

lemma append_less_iff:
  "length a = length b \<Longrightarrow> (a @ x < b @ y) = (a < b \<or> a = b \<and> x < (y :: 'a :: linorder list))"
  by (induction a b rule: list_induct2) auto

lemma two_digits_less:
  "a0 < 10 \<Longrightarrow> b0 < 10 \<Longrightarrow> (10 * a1 + a0 < 10 * b1 + b0) = (a1 < b1 \<or> a1 = b1 \<and> a0 < (b0::nat))"
  by arith

lemma pad2_less_iff: 
  assumes "a < 100" "b < 100" shows "(pad2 a < pad2 b) = (a < b)"
proof -
  have a: "a div 10 < 10" "a mod 10 < 10" "b div 10 < 10" "b mod 10 < 10" using assms by auto
  have "(pad2 a < pad2 b) = (a div 10 < b div 10 \<or> a div 10 = b div 10 \<and> a mod 10 < b mod 10)"
    unfolding pad2_def using a
    by (simp add: digit_less_iff digit_eq_iff digit_mod [of a, symmetric] digit_mod [of b, symmetric] del: digit_mod)
  also have "\<dots> = (a < b)"
    using two_digits_less [of "a mod 10" "b mod 10" "a div 10" "b div 10"] by simp
  finally show ?thesis .
qed

lemma pad2_eq_iff:
  assumes "a < 100" "b < 100" shows "(pad2 a = pad2 b) = (a = b)"
proof
  assume e: "pad2 a = pad2 b"
  have "\<not> a < b" using pad2_less_iff [OF assms] e by simp
  moreover have "\<not> b < a" using pad2_less_iff [OF assms(2,1)] e by simp
  ultimately show "a = b" by arith
qed simp

lemma pad4_split: "pad4 n = pad2 (n div 100) @ pad2 (n mod 100)"
proof -
  have 1: "n div 100 div 10 = n div 1000" by (simp add: div_mult2_eq [symmetric])
  have "n mod 100 div 10 = n div 10 mod 10"
    using mod_mult2_eq [of n 10 10] by simp
  then have 2: "digit (n mod 100 div 10) = digit (n div 10)"
    by (simp add: digit_mod)
  have "n mod 100 mod 10 = n mod 10"
    by (simp add: mod_mod_cancel)
  then have 3: "digit (n mod 100) = digit n"
    using digit_mod [of "n mod 100"] digit_mod [of n] by simp
  show ?thesis by (simp add: pad4_def pad2_def 1 2 3)
qed

lemma length_pad2: "length (pad2 n) = 2" by (simp add: pad2_def)
lemma length_pad4: "length (pad4 n) = 4" by (simp add: pad4_def)

lemma hundreds_less:
  "(a < (b::nat)) = (a div 100 < b div 100 \<or> a div 100 = b div 100 \<and> a mod 100 < b mod 100)"
proof -
  have "\<And>a0 b0 a1 b1 :: nat. a0 < 100 \<Longrightarrow> b0 < 100 \<Longrightarrow>
      (100 * a1 + a0 < 100 * b1 + b0) = (a1 < b1 \<or> a1 = b1 \<and> a0 < b0)"
    by arith
  from this [of "a mod 100" "b mod 100" "a div 100" "b div 100"] show ?thesis by simp
qed

lemma pad4_less_iff:
  assumes "a < 10000" "b < 10000" shows "(pad4 a < pad4 b) = (a < b)"
proof -
  have h: "a div 100 < 100" "b div 100 < 100" "a mod 100 < 100" "b mod 100 < 100"
    using assms by auto
  show ?thesis
    unfolding pad4_split
    by (simp add: append_less_iff length_pad2 pad2_less_iff pad2_eq_iff h hundreds_less [of a b])
qed

lemma pad4_eq_iff:
  assumes "a < 10000" "b < 10000" shows "(pad4 a = pad4 b) = (a = b)"
proof
  assume e: "pad4 a = pad4 b"
  have "\<not> a < b" using pad4_less_iff [OF assms] e by simp
  moreover have "\<not> b < a" using pad4_less_iff [OF assms(2,1)] e by simp
  ultimately show "a = b" by arith
qed simp

lemma replace_colons_pad2: "replace_colons (pad2 n) = pad2 n"
  by (simp add: replace_colons_def pad2_def digit_not_colon)

lemma replace_colons_pad4: "replace_colons (pad4 n) = pad4 n"
  by (simp add: replace_colons_def pad4_def digit_not_colon)

lemma replace_colons_pad6: "replace_colons (pad6 n) = pad6 n"
  by (simp add: replace_colons_def pad6_def digit_not_colon)

lemma replace_colons_append: "replace_colons (a @ b) = replace_colons a @ replace_colons b"
  by (simp add: replace_colons_def)

lemma stamp_split: "replace_colons (isoformat d) = stamp_seconds d @ stamp_fraction d"
proof -
  have sep: "replace_colons ''-'' = ''-''" "replace_colons ''T'' = ''T''"
    "replace_colons '':'' = ''-''" "replace_colons ''.'' = ''.''" "replace_colons [] = []"
    by (simp_all add: replace_colons_def)
  show ?thesis
    unfolding isoformat_def stamp_seconds_def stamp_fraction_def
    by (simp only: replace_colons_append replace_colons_pad2 replace_colons_pad4
        replace_colons_pad6 sep append_assoc if_distrib [of replace_colons] cong: if_cong)
qed

lemma length_stamp_seconds: "length (stamp_seconds d) = 19"
  by (simp add: stamp_seconds_def length_pad2 length_pad4)

lemma pad2_step:
  "a < 100 \<Longrightarrow> b < 100 \<Longrightarrow> (pad2 a @ x < pad2 b @ y) = (a < b \<or> a = b \<and> x < y)"
  by (simp add: append_less_iff length_pad2 pad2_less_iff pad2_eq_iff)

lemma pad4_step:
  "a < 10000 \<Longrightarrow> b < 10000 \<Longrightarrow> (pad4 a @ x < pad4 b @ y) = (a < b \<or> a = b \<and> x < y)"
  by (simp add: append_less_iff length_pad4 pad4_less_iff pad4_eq_iff)

lemma lex_pair: "((a::nat, x::'b::ord) < (b, y)) = (a < b \<or> a = b \<and> x < y)"
  by auto

lemma days_in_month_le: "days_in_month y m \<le> 31 \<or> 12 < m"
proof (cases "m \<le> 12")
  case True
  then have "m = 0 \<or> m = 1 \<or> m = 2 \<or> m = 3 \<or> m = 4 \<or> m = 5 \<or> m = 6 \<or> m = 7 \<or> m = 8 \<or>
      m = 9 \<or> m = 10 \<or> m = 11 \<or> m = 12"
    by arith
  then show ?thesis by (elim disjE) (simp_all add: days_in_month_def)
next
  case False
  then show ?thesis by simp
qed

lemma valid_day_le: "valid_datetime d \<Longrightarrow> day d \<le> 31"
  using days_in_month_le [of "year d" "month d"] by (auto simp add: valid_datetime_def)

lemma stamp_seconds_less_iff:
  assumes "valid_datetime d1" "valid_datetime d2"
  shows "(stamp_seconds d1 < stamp_seconds d2) = (whole_second d1 < whole_second d2)"
proof -
  have b: "year d1 < 10000" "year d2 < 10000" "month d1 < 100" "month d2 < 100"
    "hour d1 < 100" "hour d2 < 100" "minute d1 < 100" "minute d2 < 100"
    "second d1 < 100" "second d2 < 100"
    using assms by (simp_all add: valid_datetime_def)
  have c: "day d1 < 100" "day d2 < 100"
    using valid_day_le [OF assms(1)] valid_day_le [OF assms(2)] by simp_all
  have sep: "\<And>c x y. ((c::char) # x < c # y) = (x < y)" by simp
  show ?thesis
    unfolding stamp_seconds_def whole_second_def
    by (simp only: lex_pair pad2_step pad4_step pad2_less_iff b c sep append_Cons append_Nil)
qed

section \<open>The calendar\<close>

lemma year_step_arith:
  fixes a b c z :: nat
  assumes "b \<le> a"
  shows "Suc z * 365 + a - b + c = z * 365 + a - b + c + 365"
    and "Suc z * 365 + Suc a - b + c = z * 365 + a - b + c + 366"
    and "Suc z * 365 + Suc a - Suc b + c = z * 365 + a - b + c + 365"
    and "Suc z * 365 + Suc a - Suc b + Suc c = z * 365 + a - b + c + 366"
  using assms by simp_all

lemma days_before_year_Suc: "days_before_year (Suc z) = z * 365 + z div 4 - z div 100 + z div 400"
  by (simp add: days_before_year_def)

lemma days_before_year_step:
  "days_before_year (Suc (Suc z)) = days_before_year (Suc z) + year_length (Suc z)"
proof -
  have le: "z div 100 \<le> z div 4" by (rule div_le_mono2) simp_all
  have d4: "Suc z mod 100 = 0 \<Longrightarrow> Suc z mod 4 = 0"
    using mod_mod_cancel [of 4 100 "Suc z"] by simp
  have d100: "Suc z mod 400 = 0 \<Longrightarrow> Suc z mod 100 = 0"
    using mod_mod_cancel [of 100 400 "Suc z"] by simp
  consider (c0) "Suc z mod 4 \<noteq> 0" | (c1) "Suc z mod 4 = 0" "Suc z mod 100 \<noteq> 0"
    | (c2) "Suc z mod 100 = 0" "Suc z mod 400 \<noteq> 0" | (c3) "Suc z mod 400 = 0"
    by blast
  then show ?thesis
  proof cases
    case c0
    then have n1: "Suc z mod 100 \<noteq> 0" by (rule contrapos_nn) (rule d4)
    then have n2: "Suc z mod 400 \<noteq> 0" by (rule contrapos_nn) (rule d100)
    note n = n1 n2
    have "Suc z div 4 = z div 4" "Suc z div 100 = z div 100" "Suc z div 400 = z div 400"
      using c0 n by (simp_all add: div_Suc)
    moreover have "year_length (Suc z) = 365" using c0 by (simp add: year_length_def is_leap_def)
    ultimately show ?thesis
      using year_step_arith(1) [OF le, of z "z div 400"]
      by (simp only: days_before_year_Suc)
  next
    case c1
    from c1(2) have n: "Suc z mod 400 \<noteq> 0" by (rule contrapos_nn) (rule d100)
    have "Suc z div 4 = Suc (z div 4)" "Suc z div 100 = z div 100" "Suc z div 400 = z div 400"
      using c1 n by (simp_all add: div_Suc)
    moreover have "year_length (Suc z) = 366" using c1 by (simp add: year_length_def is_leap_def)
    ultimately show ?thesis
      using year_step_arith(2) [OF le, of z "z div 400"]
      by (simp only: days_before_year_Suc)
  next
    case c2
    from c2(1) have n: "Suc z mod 4 = 0" by (rule d4)
    have "Suc z div 4 = Suc (z div 4)" "Suc z div 100 = Suc (z div 100)" "Suc z div 400 = z div 400"
      using c2 n by (simp_all add: div_Suc)
    moreover have "year_length (Suc z) = 365" using c2 n by (simp add: year_length_def is_leap_def)
    ultimately show ?thesis
      using year_step_arith(3) [OF le, of z "z div 400"]
      by (simp only: days_before_year_Suc)
  next
    case c3
    then have n1: "Suc z mod 100 = 0" by (rule d100)
    then have n2: "Suc z mod 4 = 0" by (rule d4)
    note n = n1 n2
    have "Suc z div 4 = Suc (z div 4)" "Suc z div 100 = Suc (z div 100)"
      "Suc z div 400 = Suc (z div 400)"
      using c3 n by (simp_all add: div_Suc)
    moreover have "year_length (Suc z) = 366" using c3 n by (simp add: year_length_def is_leap_def)
    ultimately show ?thesis
      using year_step_arith(4) [OF le, of z "z div 400"]
      by (simp only: days_before_year_Suc)
  qed
qed



lemma days_before_year_mono:
  assumes "1 \<le> y" "y \<le> y'" shows "days_before_year y \<le> days_before_year y'"
proof -
  have step: "\<And>n. days_before_year (Suc n) \<le> days_before_year (Suc (Suc n))"
    by (simp add: days_before_year_step)
  have "y - 1 \<le> y' - 1" using assms by simp
  then have "days_before_year (Suc (y - 1)) \<le> days_before_year (Suc (y' - 1))"
    by (rule lift_Suc_mono_le [of "\<lambda>n. days_before_year (Suc n)", OF step])
  then show ?thesis using assms by simp
qed

lemma days_before_year_next:
  assumes "1 \<le> y" "y < y'"
  shows "days_before_year y + year_length y \<le> days_before_year y'"
proof -
  obtain z where z: "y = Suc z" using assms(1) by (cases y) simp_all
  have "days_before_year y + year_length y = days_before_year (Suc y)"
    unfolding z by (simp add: days_before_year_step)
  also have "\<dots> \<le> days_before_year y'"
    using assms by (intro days_before_year_mono) simp_all
  finally show ?thesis .
qed

lemma month_cases:
  assumes "1 \<le> m" "m \<le> 12"
  shows "m = 1 \<or> m = 2 \<or> m = 3 \<or> m = 4 \<or> m = 5 \<or> m = 6 \<or> m = 7 \<or> m = 8 \<or>
      m = 9 \<or> m = 10 \<or> m = 11 \<or> m = (12::nat)"
  using assms by arith

lemma days_before_month_next:
  assumes "1 \<le> m" "m < m'" "m' \<le> 12"
  shows "days_before_month y m + days_in_month y m \<le> days_before_month y m'"
proof -
  have m: "m = 1 \<or> m = 2 \<or> m = 3 \<or> m = 4 \<or> m = 5 \<or> m = 6 \<or> m = 7 \<or> m = 8 \<or>
      m = 9 \<or> m = 10 \<or> m = 11 \<or> m = 12"
    using assms by (intro month_cases) simp_all
  have m': "m' = 1 \<or> m' = 2 \<or> m' = 3 \<or> m' = 4 \<or> m' = 5 \<or> m' = 6 \<or> m' = 7 \<or> m' = 8 \<or>
      m' = 9 \<or> m' = 10 \<or> m' = 11 \<or> m' = 12"
    using assms by (intro month_cases) simp_all
  from m m' assms(2) show ?thesis
    by (elim disjE) (simp_all add: days_before_month_def days_in_month_def)
qed

lemma day_of_year_le:
  assumes "1 \<le> m" "m \<le> 12" "d \<le> days_in_month y m"
  shows "days_before_month y m + d \<le> year_length y"
proof -
  have m: "m = 1 \<or> m = 2 \<or> m = 3 \<or> m = 4 \<or> m = 5 \<or> m = 6 \<or> m = 7 \<or> m = 8 \<or>
      m = 9 \<or> m = 10 \<or> m = 11 \<or> m = 12"
    using assms by (intro month_cases) simp_all
  from m assms(3) show ?thesis
    by (elim disjE) (simp_all add: days_before_month_def days_in_month_def year_length_def split: if_splits)
qed

lemma secs_arith:
  fixes a b :: nat
  assumes "a < b" "h < 24" "m < 60" "s < (60::nat)"
  shows "((a * 24 + h) * 60 + m) * 60 + s < ((b * 24 + h') * 60 + m') * 60 + s'"
proof -
  have "((a * 24 + h) * 60 + m) * 60 + s < (a + 1) * 86400"
    using assms(2-4) by (simp add: distrib_right)
  also have "\<dots> \<le> b * 86400" using assms(1) by simp
  also have "\<dots> \<le> ((b * 24 + h') * 60 + m') * 60 + s'" by (simp add: distrib_right)
  finally show ?thesis .
qed

lemma time_arith:
  fixes a :: nat
  assumes "m < 60" "s < (60::nat)" "m' < 60" "s' < (60::nat)"
    and "h < h' \<or> h = h' \<and> (m < m' \<or> m = m' \<and> s < s')"
  shows "((a * 24 + h) * 60 + m) * 60 + s < ((a * 24 + h') * 60 + m') * 60 + s'"
  using assms by (auto simp add: distrib_right)

lemma toordinal_less:
  assumes v1: "valid_datetime d1" and v2: "valid_datetime d2"
    and lt: "(year d1, month d1, day d1) < (year d2, month d2, day d2)"
  shows "toordinal d1 < toordinal d2"
proof -
  from lt consider (y) "year d1 < year d2" | (m) "year d1 = year d2" "month d1 < month d2"
    | (d) "year d1 = year d2" "month d1 = month d2" "day d1 < day d2"
    by (auto simp only: lex_pair)
  then show ?thesis
  proof cases
    case y
    have "days_before_month (year d1) (month d1) + day d1 \<le> year_length (year d1)"
      using v1 by (intro day_of_year_le) (simp_all add: valid_datetime_def)
    moreover have "days_before_year (year d1) + year_length (year d1) \<le> days_before_year (year d2)"
      using v1 y by (intro days_before_year_next) (simp_all add: valid_datetime_def)
    moreover have "1 \<le> day d2" using v2 by (simp add: valid_datetime_def)
    ultimately show ?thesis unfolding toordinal_def by linarith
  next
    case m
    have "days_before_month (year d1) (month d1) + days_in_month (year d1) (month d1)
          \<le> days_before_month (year d1) (month d2)"
      using v1 v2 m by (intro days_before_month_next) (simp_all add: valid_datetime_def)
    moreover have "day d1 \<le> days_in_month (year d1) (month d1)" "1 \<le> day d2"
      using v1 v2 by (simp_all add: valid_datetime_def)
    ultimately show ?thesis unfolding toordinal_def m(1) [symmetric] by linarith
  next
    case d
    then show ?thesis by (simp add: toordinal_def)
  qed
qed

lemma seconds_since_less:
  assumes v1: "valid_datetime d1" and v2: "valid_datetime d2"
    and lt: "whole_second d1 < whole_second d2"
  shows "seconds_since d1 < seconds_since d2"
proof -
  have b1: "hour d1 < 24" "minute d1 < 60" "second d1 < 60"
    using v1 by (simp_all add: valid_datetime_def)
  have b2: "hour d2 < 24" "minute d2 < 60" "second d2 < 60"
    using v2 by (simp_all add: valid_datetime_def)
  from lt consider
      (date) "(year d1, month d1, day d1) < (year d2, month d2, day d2)"
    | (time) "year d1 = year d2" "month d1 = month d2" "day d1 = day d2"
        "hour d1 < hour d2 \<or> hour d1 = hour d2 \<and>
           (minute d1 < minute d2 \<or> minute d1 = minute d2 \<and> second d1 < second d2)"
    unfolding whole_second_def by (auto simp only: lex_pair)
  then show ?thesis
  proof cases
    case date
    then have "toordinal d1 < toordinal d2" by (rule toordinal_less [OF v1 v2])
    then show ?thesis unfolding seconds_since_def using b1 by (rule secs_arith)
  next
    case time
    then have "toordinal d1 = toordinal d2" by (simp add: toordinal_def)
    then show ?thesis
      unfolding seconds_since_def using time_arith [OF b1(2,3) b2(2,3) time(4)] by simp
  qed
qed

lemma second_apart:
  assumes v1: "valid_datetime d1" and v2: "valid_datetime d2"
    and apart: "total_microseconds d1 + 1000000 \<le> total_microseconds d2"
  shows "whole_second d1 < whole_second d2"
proof (rule ccontr)
  assume "\<not> whole_second d1 < whole_second d2"
  then have "whole_second d2 < whole_second d1 \<or> whole_second d2 = whole_second d1"
    by auto
  then have "seconds_since d2 \<le> seconds_since d1"
  proof
    assume "whole_second d2 < whole_second d1"
    then show ?thesis using seconds_since_less [OF v2 v1] by simp
  next
    assume "whole_second d2 = whole_second d1"
    then show ?thesis by (simp add: whole_second_def seconds_since_def toordinal_def)
  qed
  moreover have "microsecond d2 < 1000000" using v2 by (simp add: valid_datetime_def)
  moreover have "total_microseconds d1 = seconds_since d1 * 1000000 + microsecond d1"
    "total_microseconds d2 = seconds_since d2 * 1000000 + microsecond d2"
    by (simp_all add: total_microseconds_def seconds_since_def)
  ultimately show False using apart by simp
qed

section \<open>File names follow the clock from one second on\<close>

lemma file_name_split:
  "file_name dev d = (dev @ ''_'') @ stamp_seconds d @ (stamp_fraction d @ ''.json'')"
  by (simp add: file_name_def stamp_split)

lemma file_name_less:
  assumes "valid_datetime d1" "valid_datetime d2" "whole_second d1 < whole_second d2"
  shows "file_name dev d1 < file_name dev d2"
proof -
  have "stamp_seconds d1 < stamp_seconds d2"
    using assms by (simp add: stamp_seconds_less_iff)
  then have "stamp_seconds d1 @ (stamp_fraction d1 @ ''.json'')
           < stamp_seconds d2 @ (stamp_fraction d2 @ ''.json'')"
    by (simp add: append_less_iff length_stamp_seconds)
  then show ?thesis
    unfolding file_name_split by (simp only: append_less_iff [OF refl] simp_thms)
qed

lemma half_past_valid: "valid_datetime half_past"
  by (simp add: valid_datetime_def half_past_def days_in_month_def is_leap_def)

lemma next_day_valid: "valid_datetime next_day"
  by (simp add: valid_datetime_def next_day_def days_in_month_def is_leap_def)

lemma half_past_next_day:
  "total_microseconds half_past + 1000000 \<le> total_microseconds next_day"
  by (simp add: total_microseconds_def toordinal_def days_before_year_def
      days_before_month_def is_leap_def half_past_def next_day_def)

text \<open>
  C7. For two valid clock readings of which the second is at least one second (1000000
  microseconds) after the first, and any device text, the file name of the second
  reading is lexicographically greater than that of the first, so \<open>max\<close> over the two
  names, in either order, is the name of the later reading.
\<close>

theorem file_name_order:
  assumes "valid_datetime d1" "valid_datetime d2"
    and "total_microseconds d1 + 1000000 \<le> total_microseconds d2"
  shows "file_name dev d1 < file_name dev d2 \<and>
         py_max [file_name dev d1, file_name dev d2] = Some (file_name dev d2) \<and>
         py_max [file_name dev d2, file_name dev d1] = Some (file_name dev d2)"
proof -
  have "whole_second d1 < whole_second d2"
    using assms by (rule second_apart)
  then have lt: "file_name dev d1 < file_name dev d2"
    using assms(1,2) by (intro file_name_less)
  then have "max (file_name dev d1) (file_name dev d2) = file_name dev d2"
    "max (file_name dev d2) (file_name dev d1) = file_name dev d2"
    by (simp_all add: max.absorb1 max.absorb2 less_imp_le)
  with lt show ?thesis by simp
qed

theorem file_name_order_witness:
  "valid_datetime half_past \<and> valid_datetime next_day \<and>
   total_microseconds half_past + 1000000 \<le> total_microseconds next_day \<and>
   file_name ''pump1'' half_past < file_name ''pump1'' next_day \<and>
   py_max [file_name ''pump1'' half_past, file_name ''pump1'' next_day] =
     Some (file_name ''pump1'' next_day) \<and>
   py_max [file_name ''pump1'' next_day, file_name ''pump1'' half_past] =
     Some (file_name ''pump1'' next_day)"
  using file_name_order [OF half_past_valid next_day_valid half_past_next_day, of "''pump1''"]
    half_past_valid next_day_valid half_past_next_day
  by simp

section \<open>Reading back\<close>

lemma get_latest_data_file:
  assumes "database_url w = []" "fs_fault env = None"
  shows "get_latest_data env device_id w =
     (case py_max (filter (\<lambda>f. startswith f (device_id @ ''_'')) (listdir ''data'' (files w))) of
        None \<Rightarrow> (Inr (JObj [(''error'', JStr ''No data found for device'')], 404), w)
      | Some latest_file \<Rightarrow>
          (case map_of (files w) (''data/'' @ latest_file) of
             Some data \<Rightarrow> (Inr (data, 200), w)
           | None \<Rightarrow> (Inr (JObj [(''error'', JStr ''Error retrieving data'')], 500), w)))"
  using assms by (simp add: get_latest_data_def get_db_connection_def split: option.splits)

lemma get_latest_data_db:
  assumes "database_url w \<noteq> []" "db_fault env = None"
  shows "get_latest_data env device_id w =
     (case fetchone env (select_latest (sensor_data w) device_id) of
        Some r \<Rightarrow>
          (Inr (JObj [(''device_id'', JStr device_id),
                      (''temperature'', opt_float (row_temperature r)),
                      (''humidity'', opt_float (row_humidity r)),
                      (''flow_rate'', opt_float (row_flow_rate r)),
                      (''flow_direction'', opt_int (row_flow_direction r)),
                      (''latitude'', opt_float (row_latitude r)),
                      (''longitude'', opt_float (row_longitude r)),
                      (''timestamp'', JStr (isoformat (row_timestamp r)))], 200), w)
      | None \<Rightarrow> (Inr (JObj [(''error'', JStr ''No data found for device'')], 404), w))"
  using assms
  by (simp add: get_latest_data_def get_db_connection_def conn_close_def split: option.splits)

lemma save_data_db:
  assumes "database_url w \<noteq> []" "db_fault env = None"
  shows "save_data env data w =
     (case sql_insert env (next_id w) (dict_get data ''device_id'' (JStr ''unknown''))
             (dict_get data ''temperature'' JNull) (dict_get data ''humidity'' JNull)
             (dict_get data ''flow_rate'' JNull) (dict_get data ''flow_direction'' JNull)
             (dict_get data ''latitude'' JNull) (dict_get data ''longitude'' JNull) of
        None \<Rightarrow> (Inr False, w\<lparr>open_conns := Suc (open_conns w)\<rparr>)
      | Some r \<Rightarrow> (Inr True, w\<lparr>sensor_data := sensor_data w @ [r], next_id := Suc (next_id w)\<rparr>))"
  using assms
  by (simp add: save_data_def get_db_connection_def conn_close_def Let_def split: option.splits)

lemma fetchone_mem: "fetchone env rs = Some r \<Longrightarrow> r \<in> set rs"
  by (auto simp add: fetchone_def split: if_splits)

lemma select_latest_mem:
  assumes "r \<in> set (select_latest tbl device_id)"
  shows "r \<in> set tbl" "row_device_id r = device_id"
    "\<forall>r' \<in> set tbl. row_device_id r' = device_id \<longrightarrow>
        dt_key (row_timestamp r') \<le> dt_key (row_timestamp r)"
  using assms by (auto simp add: select_latest_def Let_def)

lemma fold_max_mem: "fold max xs (x :: 'a :: linorder) \<in> set (x # xs)"
proof (induction xs arbitrary: x)
  case Nil
  then show ?case by simp
next
  case (Cons y ys)
  have "fold max ys (max y x) \<in> set (max y x # ys)" by (rule Cons.IH)
  moreover have "max y x = x \<or> max y x = y" by (auto simp add: max_def)
  ultimately show ?case by auto
qed

lemma py_max_mem: "py_max xs = Some x \<Longrightarrow> x \<in> set xs"
  using fold_max_mem by (cases xs) auto

text \<open>
  On the relational backend the row read back is one of the device's rows, and no row of
  the device has a greater timestamp; a device without rows is answered 404.
\<close>

lemma db_latest_is_greatest:
  assumes "database_url w \<noteq> []" "db_fault env = None"
    and "fst (get_latest_data env device_id w) = Inr (body, 200)"
  shows "\<exists>r \<in> set (sensor_data w). row_device_id r = device_id \<and>
           map_of (case body of JObj kv \<Rightarrow> kv | _ \<Rightarrow> []) ''temperature'' =
             Some (opt_float (row_temperature r)) \<and>
           (\<forall>r' \<in> set (sensor_data w). row_device_id r' = device_id \<longrightarrow>
              dt_key (row_timestamp r') \<le> dt_key (row_timestamp r))"
proof -
  from assms obtain r where r: "fetchone env (select_latest (sensor_data w) device_id) = Some r"
    and b: "map_of (case body of JObj kv \<Rightarrow> kv | _ \<Rightarrow> []) ''temperature'' =
             Some (opt_float (row_temperature r))"
    by (auto simp add: get_latest_data_db split: option.splits)
  from r have "r \<in> set (select_latest (sensor_data w) device_id)" by (rule fetchone_mem)
  from select_latest_mem [OF this] b show ?thesis by blast
qed

lemma db_unknown_device_404:
  assumes "database_url w \<noteq> []" "db_fault env = None"
    and "\<forall>r \<in> set (sensor_data w). row_device_id r \<noteq> device_id"
  shows "fst (get_latest_data env device_id w) =
           Inr (JObj [(''error'', JStr ''No data found for device'')], 404)"
proof -
  have "filter (\<lambda>r. row_device_id r = device_id) (sensor_data w) = []"
    using assms(3) by (simp add: filter_empty_conv)
  then have "select_latest (sensor_data w) device_id = []"
    by (simp add: select_latest_def)
  then show ?thesis using assms(1,2) by (simp add: get_latest_data_db fetchone_def)
qed

subsection \<open>The concrete worlds\<close>

lemma file_name_noon: "file_name dev noon = dev @ ''_2024-01-01T12-00-00.json''"
  by (simp add: file_name_def isoformat_def replace_colons_def noon_def pad2_def pad4_def
      digit_def)

lemma file_name_noon_half:
  "file_name dev noon_half = dev @ ''_2024-01-01T12-00-00.500000.json''"
  by (simp add: file_name_def isoformat_def replace_colons_def noon_half_def pad2_def pad4_def
      pad6_def digit_def)

lemma isoformat_noon: "isoformat noon = ''2024-01-01T12:00:00''"
  by (simp add: isoformat_def noon_def pad2_def pad4_def digit_def)

lemma isoformat_noon_half: "isoformat noon_half = ''2024-01-01T12:00:00.500000''"
  by (simp add: isoformat_def noon_half_def pad2_def pad4_def pad6_def digit_def)

lemma noon_before: "dt_key noon < dt_key noon_half"
  by (simp add: dt_key_def noon_def noon_half_def)

lemma plain_env_clock: "plain_env\<lparr>clock := noon\<rparr> = plain_env"
  by (simp add: plain_env_def)

lemma save_reading_file:
  assumes "database_url w = []"
  shows "save_data (plain_env\<lparr>clock := t\<rparr>) (reading dev x) w =
     (Inr True, w\<lparr>files := write_file (''data/'' @ file_name dev t) (JObj (reading dev x)) (files w)\<rparr>)"
  using assms by (simp add: save_data_file plain_env_def reading_def dict_get_def)

lemma sql_insert_reading:
  assumes "length dev \<le> 50"
  shows "sql_insert (plain_env\<lparr>clock := t\<rparr>) n (JStr dev) (JInt x) (JInt 40) (JInt 7) JNull JNull JNull =
     Some (reading_row dev n x t)"
  using assms by (simp add: sql_insert_def plain_env_def bind_float_def bind_int_def reading_row_def)

lemma save_reading_db:
  assumes "database_url w \<noteq> []" "length dev \<le> 50"
  shows "save_data (plain_env\<lparr>clock := t\<rparr>) (reading dev x) w =
     (Inr True, w\<lparr>sensor_data := sensor_data w @ [reading_row dev (next_id w) x t],
                  next_id := Suc (next_id w)\<rparr>)"
proof -
  have g: "dict_get (reading dev x) ''device_id'' (JStr ''unknown'') = JStr dev"
    "dict_get (reading dev x) ''temperature'' JNull = JInt x"
    "dict_get (reading dev x) ''humidity'' JNull = JInt 40"
    "dict_get (reading dev x) ''flow_rate'' JNull = JInt 7"
    "dict_get (reading dev x) ''flow_direction'' JNull = JNull"
    "dict_get (reading dev x) ''latitude'' JNull = JNull"
    "dict_get (reading dev x) ''longitude'' JNull = JNull"
    by (simp_all add: dict_get_def reading_def)
  have f: "db_fault (plain_env\<lparr>clock := t\<rparr>) = None" by (simp add: plain_env_def)
  show ?thesis
    by (simp only: save_data_db [OF assms(1) f] g sql_insert_reading [OF assms(2)] option.case)
qed

lemma get_file_world_pump1:
  "get_latest_data plain_env ''pump1'' file_world_pump1 =
     (Inr (JObj (reading ''pump1'' 21), 200), file_world_pump1)"
  by (simp add: get_latest_data_file file_world_pump1_def file_world_def plain_env_def
      listdir_def startswith_def)

lemma get_db_world_pump1:
  "get_latest_data plain_env ''pump1'' db_world_pump1 =
     (Inr (JObj [(''device_id'', JStr ''pump1''), (''temperature'', JFloat 21),
                 (''humidity'', JFloat 40), (''flow_rate'', JFloat 7),
                 (''flow_direction'', JNull), (''latitude'', JNull), (''longitude'', JNull),
                 (''timestamp'', JStr ''2024-01-01T12:00:00'')], 200), db_world_pump1)"
  by (simp add: get_latest_data_db db_world_pump1_def db_world_def plain_env_def select_latest_def
      fetchone_def reading_row_def opt_float_def opt_int_def isoformat_noon)

section \<open>The latest reading\<close>

lemma two_posts_file:
  "snd (receive_sensor_data (plain_env\<lparr>clock := noon_half\<rparr>) (reading ''pump1'' 25)
          (snd (receive_sensor_data plain_env (reading ''pump1'' 21) file_world))) =
     file_world\<lparr>files :=
       [(''data/pump1_2024-01-01T12-00-00.json'', JObj (reading ''pump1'' 21)),
        (''data/pump1_2024-01-01T12-00-00.500000.json'', JObj (reading ''pump1'' 25))]\<rparr>"
proof -
  have k: "has_key (reading ''pump1'' x) ''device_id''" "has_key (reading ''pump1'' x) ''temperature''"
    "has_key (reading ''pump1'' x) ''humidity''" "has_key (reading ''pump1'' x) ''flow_rate''" for x
    by (simp_all add: has_key_def reading_def)
  have 1: "snd (receive_sensor_data plain_env (reading ''pump1'' 21) file_world) = file_world_pump1"
    using save_reading_file [of file_world noon "''pump1''" 21]
    by (simp add: receive_sensor_data_forwards [OF k] plain_env_clock file_world_def
        file_world_pump1_def file_name_noon)
  show ?thesis
    unfolding 1 using save_reading_file [of file_world_pump1 noon_half "''pump1''" 25]
    by (simp add: receive_sensor_data_forwards [OF k] file_world_def file_world_pump1_def
        file_name_noon_half)
qed

lemma two_posts_db:
  "snd (receive_sensor_data (plain_env\<lparr>clock := noon_half\<rparr>) (reading ''pump1'' 25)
          (snd (receive_sensor_data plain_env (reading ''pump1'' 21) db_world))) =
     db_world\<lparr>sensor_data := [reading_row ''pump1'' 1 21 noon, reading_row ''pump1'' 2 25 noon_half],
              next_id := 3\<rparr>"
proof -
  have k: "has_key (reading ''pump1'' x) ''device_id''" "has_key (reading ''pump1'' x) ''temperature''"
    "has_key (reading ''pump1'' x) ''humidity''" "has_key (reading ''pump1'' x) ''flow_rate''" for x
    by (simp_all add: has_key_def reading_def)
  have 1: "snd (receive_sensor_data plain_env (reading ''pump1'' 21) db_world) = db_world_pump1"
    using save_reading_db [of db_world "''pump1''" noon 21]
    by (simp add: receive_sensor_data_forwards [OF k] plain_env_clock db_world_def
        db_world_pump1_def)
  show ?thesis
    unfolding 1 using save_reading_db [of db_world_pump1 "''pump1''" noon_half 25]
    by (simp add: receive_sensor_data_forwards [OF k] db_world_def db_world_pump1_def)
qed

text \<open>
  C1 fails on the code. Two readings of \<open>pump1\<close> are posted, the first at 12:00:00.000000
  and the second half a second later. Under the file fallback the GET returns the first
  one (temperature 21): the name of its file has no fraction and is the greater one.
  Under the relational backend the same requests return the second (temperature 25).
\<close>

theorem latest_file_not_latest_reading:
  "dt_key noon < dt_key noon_half \<and>
   fst (get_latest_data plain_env ''pump1''
          (snd (receive_sensor_data (plain_env\<lparr>clock := noon_half\<rparr>) (reading ''pump1'' 25)
             (snd (receive_sensor_data plain_env (reading ''pump1'' 21) file_world))))) =
     Inr (JObj (reading ''pump1'' 21), 200) \<and>
   fst (get_latest_data plain_env ''pump1''
          (snd (receive_sensor_data (plain_env\<lparr>clock := noon_half\<rparr>) (reading ''pump1'' 25)
             (snd (receive_sensor_data plain_env (reading ''pump1'' 21) db_world))))) =
     Inr (JObj [(''device_id'', JStr ''pump1''), (''temperature'', JFloat 25),
                (''humidity'', JFloat 40), (''flow_rate'', JFloat 7),
                (''flow_direction'', JNull), (''latitude'', JNull), (''longitude'', JNull),
                (''timestamp'', JStr ''2024-01-01T12:00:00.500000'')], 200)"
proof -
  have f: "fst (get_latest_data plain_env ''pump1''
      (file_world\<lparr>files :=
       [(''data/pump1_2024-01-01T12-00-00.json'', JObj (reading ''pump1'' 21)),
        (''data/pump1_2024-01-01T12-00-00.500000.json'', JObj (reading ''pump1'' 25))]\<rparr>)) =
     Inr (JObj (reading ''pump1'' 21), 200)"
    by (simp add: get_latest_data_file file_world_def plain_env_def listdir_def startswith_def)
  have le: "dt_key noon \<le> dt_key noon_half" "\<not> dt_key noon_half \<le> dt_key noon"
    using noon_before by simp_all
  have "select_latest [reading_row ''pump1'' 1 21 noon, reading_row ''pump1'' 2 25 noon_half] ''pump1'' =
      [reading_row ''pump1'' 2 25 noon_half]"
    by (simp add: select_latest_def reading_row_def le)
  then have d: "fst (get_latest_data plain_env ''pump1''
      (db_world\<lparr>sensor_data := [reading_row ''pump1'' 1 21 noon, reading_row ''pump1'' 2 25 noon_half],
              next_id := 3\<rparr>)) =
     Inr (JObj [(''device_id'', JStr ''pump1''), (''temperature'', JFloat 25),
                (''humidity'', JFloat 40), (''flow_rate'', JFloat 7),
                (''flow_direction'', JNull), (''latitude'', JNull), (''longitude'', JNull),
                (''timestamp'', JStr ''2024-01-01T12:00:00.500000'')], 200)"
    by (simp add: get_latest_data_db db_world_def plain_env_def fetchone_def reading_row_def
        opt_float_def opt_int_def isoformat_noon_half)
  show ?thesis
    unfolding two_posts_file two_posts_db using noon_before f d by simp
qed

text \<open>
  What a GET answered with status 200 returns. It has, under the relational
  backend, a body with exactly the keys \<open>device_id\<close>, \<open>temperature\<close>, \<open>humidity\<close>,
  \<open>flow_rate\<close>, \<open>flow_direction\<close>, \<open>latitude\<close>, \<open>longitude\<close> and \<open>timestamp\<close>, filled from
  one row of the device, the timestamp being the \<open>isoformat\<close> text of the row's; under
  the file fallback the body is the content of one file of \<open>data\<close> whose name starts with
  the device id and an underscore, as it was stored.
\<close>

theorem latest_body_by_backend:
  assumes "fst (get_latest_data env device_id w) = Inr (body, 200)"
  shows "(database_url w \<noteq> [] \<longrightarrow>
           (\<exists>r \<in> set (sensor_data w). row_device_id r = device_id \<and>
              body = JObj [(''device_id'', JStr device_id),
                           (''temperature'', opt_float (row_temperature r)),
                           (''humidity'', opt_float (row_humidity r)),
                           (''flow_rate'', opt_float (row_flow_rate r)),
                           (''flow_direction'', opt_int (row_flow_direction r)),
                           (''latitude'', opt_float (row_latitude r)),
                           (''longitude'', opt_float (row_longitude r)),
                           (''timestamp'', JStr (isoformat (row_timestamp r)))])) \<and>
         (database_url w = [] \<longrightarrow>
           (\<exists>f \<in> set (listdir ''data'' (files w)). startswith f (device_id @ ''_'') \<and>
              map_of (files w) (''data/'' @ f) = Some body))"
proof (intro conjI impI)
  assume db: "database_url w \<noteq> []"
  from assms db obtain r where r: "fetchone env (select_latest (sensor_data w) device_id) = Some r"
    and b: "body = JObj [(''device_id'', JStr device_id),
                           (''temperature'', opt_float (row_temperature r)),
                           (''humidity'', opt_float (row_humidity r)),
                           (''flow_rate'', opt_float (row_flow_rate r)),
                           (''flow_direction'', opt_int (row_flow_direction r)),
                           (''latitude'', opt_float (row_latitude r)),
                           (''longitude'', opt_float (row_longitude r)),
                           (''timestamp'', JStr (isoformat (row_timestamp r)))]"
    by (auto simp add: get_latest_data_def get_db_connection_def split: if_splits option.splits)
  from r have "r \<in> set (select_latest (sensor_data w) device_id)" by (rule fetchone_mem)
  then have "r \<in> set (sensor_data w)" "row_device_id r = device_id"
    by (rule select_latest_mem)+
  with b show "\<exists>r \<in> set (sensor_data w). row_device_id r = device_id \<and>
              body = JObj [(''device_id'', JStr device_id),
                           (''temperature'', opt_float (row_temperature r)),
                           (''humidity'', opt_float (row_humidity r)),
                           (''flow_rate'', opt_float (row_flow_rate r)),
                           (''flow_direction'', opt_int (row_flow_direction r)),
                           (''latitude'', opt_float (row_latitude r)),
                           (''longitude'', opt_float (row_longitude r)),
                           (''timestamp'', JStr (isoformat (row_timestamp r)))]"
    by blast
next
  assume fb: "database_url w = []"
  from assms fb obtain f where
    f: "py_max (filter (\<lambda>f. startswith f (device_id @ ''_'')) (listdir ''data'' (files w))) = Some f"
    and c: "map_of (files w) (''data/'' @ f) = Some body"
    by (auto simp add: get_latest_data_def get_db_connection_def split: if_splits option.splits)
  from f have "f \<in> set (filter (\<lambda>f. startswith f (device_id @ ''_'')) (listdir ''data'' (files w)))"
    by (rule py_max_mem)
  with c show "\<exists>f \<in> set (listdir ''data'' (files w)). startswith f (device_id @ ''_'') \<and>
              map_of (files w) (''data/'' @ f) = Some body"
    by auto
qed

theorem latest_body_by_backend_witness:
  "fst (get_latest_data plain_env ''pump1'' db_world_pump1) =
     Inr (JObj [(''device_id'', JStr ''pump1''), (''temperature'', JFloat 21),
                (''humidity'', JFloat 40), (''flow_rate'', JFloat 7),
                (''flow_direction'', JNull), (''latitude'', JNull), (''longitude'', JNull),
                (''timestamp'', JStr ''2024-01-01T12:00:00'')], 200) \<and>
   (\<exists>r \<in> set (sensor_data db_world_pump1). row_device_id r = ''pump1'' \<and>
      row_timestamp r = noon \<and> isoformat (row_timestamp r) = ''2024-01-01T12:00:00'') \<and>
   fst (get_latest_data plain_env ''pump1'' file_world_pump1) =
     Inr (JObj (reading ''pump1'' 21), 200) \<and>
   (\<exists>f \<in> set (listdir ''data'' (files file_world_pump1)). startswith f ''pump1_'' \<and>
      map_of (files file_world_pump1) (''data/'' @ f) = Some (JObj (reading ''pump1'' 21)))"
proof -
  let ?B = "JObj [(''device_id'', JStr ''pump1''), (''temperature'', JFloat 21),
                (''humidity'', JFloat 40), (''flow_rate'', JFloat 7),
                (''flow_direction'', JNull), (''latitude'', JNull), (''longitude'', JNull),
                (''timestamp'', JStr ''2024-01-01T12:00:00'')] :: int json"
  have g1: "fst (get_latest_data plain_env ''pump1'' db_world_pump1) = Inr (?B, 200)"
    by (simp add: get_db_world_pump1)
  have g2: "fst (get_latest_data plain_env ''pump1'' file_world_pump1) =
     Inr (JObj (reading ''pump1'' 21), 200)"
    by (simp add: get_file_world_pump1)
  have u1: "database_url db_world_pump1 \<noteq> []"
    by (simp add: db_world_pump1_def db_world_def)
  have u2: "database_url file_world_pump1 = []"
    by (simp add: file_world_pump1_def file_world_def)
  have a: "\<exists>r \<in> set (sensor_data db_world_pump1). row_device_id r = ''pump1'' \<and>
      row_timestamp r = noon \<and> isoformat (row_timestamp r) = ''2024-01-01T12:00:00''"
    using latest_body_by_backend [OF g1] u1
    by (simp add: db_world_pump1_def reading_row_def isoformat_noon)
  have b: "\<exists>f \<in> set (listdir ''data'' (files file_world_pump1)). startswith f ''pump1_'' \<and>
      map_of (files file_world_pump1) (''data/'' @ f) = Some (JObj (reading ''pump1'' 21))"
    using latest_body_by_backend [OF g2] u2 by simp
  show ?thesis using g1 g2 a b by blast
qed

text \<open>
  C5 fails on the code. Under the file fallback the reading posted with the four
  required keys is read back with status 200 and a body that is the posted payload: it
  has no \<open>timestamp\<close>, \<open>flow_direction\<close>, \<open>latitude\<close> or \<open>longitude\<close>. Under the
  relational backend the same reading is read back with the eight keys.
\<close>

theorem file_backend_body_lacks_keys:
  "receive_sensor_data plain_env (reading ''pump1'' 21) file_world =
     (Inr (JObj [(''message'', JStr ''Data received successfully''),
                 (''timestamp'', JStr ''2024-01-01T12:00:00''),
                 (''data'', JObj (reading ''pump1'' 21))], 200), file_world_pump1) \<and>
   get_latest_data plain_env ''pump1'' file_world_pump1 =
     (Inr (JObj (reading ''pump1'' 21), 200), file_world_pump1) \<and>
   \<not> has_key (reading ''pump1'' 21) ''timestamp'' \<and>
   \<not> has_key (reading ''pump1'' 21) ''flow_direction'' \<and>
   \<not> has_key (reading ''pump1'' 21) ''latitude'' \<and>
   \<not> has_key (reading ''pump1'' 21) ''longitude'' \<and>
   save_data plain_env (reading ''pump1'' 21) db_world = (Inr True, db_world_pump1) \<and>
   get_latest_data plain_env ''pump1'' db_world_pump1 =
     (Inr (JObj [(''device_id'', JStr ''pump1''), (''temperature'', JFloat 21),
                 (''humidity'', JFloat 40), (''flow_rate'', JFloat 7),
                 (''flow_direction'', JNull), (''latitude'', JNull), (''longitude'', JNull),
                 (''timestamp'', JStr ''2024-01-01T12:00:00'')], 200), db_world_pump1)"
proof -
  have "receive_sensor_data plain_env (reading ''pump1'' 21) file_world =
     (Inr (JObj [(''message'', JStr ''Data received successfully''),
                 (''timestamp'', JStr ''2024-01-01T12:00:00''),
                 (''data'', JObj (reading ''pump1'' 21))], 200), file_world_pump1)"
    by (simp add: receive_sensor_data_def required_fields_def has_key_def save_data_file
        file_world_pump1_def file_world_def plain_env_def reading_def dict_get_def
        file_name_noon isoformat_noon)
  moreover have "\<not> has_key (reading ''pump1'' 21) ''timestamp''"
    "\<not> has_key (reading ''pump1'' 21) ''flow_direction''"
    "\<not> has_key (reading ''pump1'' 21) ''latitude''"
    "\<not> has_key (reading ''pump1'' 21) ''longitude''"
    by (simp_all add: has_key_def reading_def)
  moreover have "save_data plain_env (reading ''pump1'' 21) db_world = (Inr True, db_world_pump1)"
    using save_reading_db [of db_world "''pump1''" noon 21]
    by (simp add: plain_env_clock db_world_def db_world_pump1_def)
  ultimately show ?thesis by (simp add: get_file_world_pump1 get_db_world_pump1)
qed

text \<open>
  C8 fails on the code. Under the file fallback two saves for \<open>pump1\<close> at the same clock
  reading go to the same file: after the second save the file holds the second payload
  and the first one (temperature 21) is gone. Under the relational backend the same two
  saves leave two rows.
\<close>

theorem same_instant_overwrites:
  "save_data plain_env (reading ''pump1'' 21) file_world = (Inr True, file_world_pump1) \<and>
   save_data plain_env (reading ''pump1'' 25) file_world_pump1 =
     (Inr True, file_world\<lparr>files :=
        [(''data/pump1_2024-01-01T12-00-00.json'', JObj (reading ''pump1'' 25))]\<rparr>) \<and>
   save_data plain_env (reading ''pump1'' 21) db_world = (Inr True, db_world_pump1) \<and>
   save_data plain_env (reading ''pump1'' 25) db_world_pump1 =
     (Inr True, db_world\<lparr>sensor_data :=
        [reading_row ''pump1'' 1 21 noon, reading_row ''pump1'' 2 25 noon], next_id := 3\<rparr>)"
  using save_reading_file [of file_world noon "''pump1''" 21]
    save_reading_file [of file_world_pump1 noon "''pump1''" 25]
    save_reading_db [of db_world "''pump1''" noon 21]
    save_reading_db [of db_world_pump1 "''pump1''" noon 25]
  by (simp add: plain_env_clock file_world_def file_world_pump1_def db_world_def
      db_world_pump1_def file_name_noon)

text \<open>
  C9 fails on the code. Under the file fallback, after the only reading stored is one of
  device \<open>pump_2\<close>, the GET for device \<open>pump\<close>, which has no reading, is answered with
  status 200 and the reading of \<open>pump_2\<close>. Under the relational backend the same GET is
  answered 404.
\<close>

theorem unknown_device_answered_200:
  "save_data plain_env (reading ''pump_2'' 21) file_world =
     (Inr True, file_world\<lparr>files :=
        [(''data/pump_2_2024-01-01T12-00-00.json'', JObj (reading ''pump_2'' 21))]\<rparr>) \<and>
   fst (get_latest_data plain_env ''pump''
          (file_world\<lparr>files :=
             [(''data/pump_2_2024-01-01T12-00-00.json'', JObj (reading ''pump_2'' 21))]\<rparr>)) =
     Inr (JObj (reading ''pump_2'' 21), 200) \<and>
   save_data plain_env (reading ''pump_2'' 21) db_world =
     (Inr True, db_world\<lparr>sensor_data := [reading_row ''pump_2'' 1 21 noon], next_id := 2\<rparr>) \<and>
   fst (get_latest_data plain_env ''pump''
          (db_world\<lparr>sensor_data := [reading_row ''pump_2'' 1 21 noon], next_id := 2\<rparr>)) =
     Inr (JObj [(''error'', JStr ''No data found for device'')], 404)"
proof -
  have 1: "save_data plain_env (reading ''pump_2'' 21) file_world =
     (Inr True, file_world\<lparr>files :=
        [(''data/pump_2_2024-01-01T12-00-00.json'', JObj (reading ''pump_2'' 21))]\<rparr>)"
    using save_reading_file [of file_world noon "''pump_2''" 21]
    by (simp add: plain_env_clock file_world_def file_name_noon)
  have 2: "fst (get_latest_data plain_env ''pump''
          (file_world\<lparr>files :=
             [(''data/pump_2_2024-01-01T12-00-00.json'', JObj (reading ''pump_2'' 21))]\<rparr>)) =
     Inr (JObj (reading ''pump_2'' 21), 200)"
    by (simp add: get_latest_data_file file_world_def plain_env_def listdir_def startswith_def)
  have 3: "save_data plain_env (reading ''pump_2'' 21) db_world =
     (Inr True, db_world\<lparr>sensor_data := [reading_row ''pump_2'' 1 21 noon], next_id := 2\<rparr>)"
    using save_reading_db [of db_world "''pump_2''" noon 21]
    by (simp add: plain_env_clock db_world_def)
  have 4: "fst (get_latest_data plain_env ''pump''
          (db_world\<lparr>sensor_data := [reading_row ''pump_2'' 1 21 noon], next_id := 2\<rparr>)) =
     Inr (JObj [(''error'', JStr ''No data found for device'')], 404)"
    by (rule db_unknown_device_404) (simp_all add: db_world_def plain_env_def reading_row_def)
  show ?thesis using 1 2 3 4 by simp
qed

section \<open>Devices whose id extends another id\<close>

lemma digit_not_slash: "digit n \<noteq> CHR ''/''"
proof
  assume "digit n = CHR ''/''"
  then have "of_char (digit (n mod 10)) = (of_char (CHR ''/'') :: nat)"
    by (simp add: digit_mod)
  then show False by (simp add: of_char_digit)
qed

lemma slash_notin_file_name:
  assumes "CHR ''/'' \<notin> set dev"
  shows "CHR ''/'' \<notin> set (file_name dev d)"
  using assms
  by (simp add: file_name_split stamp_seconds_def stamp_fraction_def pad2_def pad4_def pad6_def
      digit_not_slash [symmetric])

lemma startswith_iff: "startswith f pre = (\<exists>rest. f = pre @ rest)"
proof
  assume "startswith f pre"
  then have "take (length pre) f = pre" by (simp add: startswith_def)
  then have "pre @ drop (length pre) f = f"
    using append_take_drop_id [of "length pre" f] by simp
  then have "f = pre @ drop (length pre) f" by (rule sym)
  then show "\<exists>rest. f = pre @ rest" ..
next
  assume "\<exists>rest. f = pre @ rest"
  then show "startswith f pre" by (auto simp add: startswith_def)
qed

lemma listdir_mem:
  "n \<in> set (listdir dir fs) = (dir @ ''/'' @ n \<in> set (map fst fs) \<and> CHR ''/'' \<notin> set n)"
proof
  assume "n \<in> set (listdir dir fs)"
  then obtain p where p: "p \<in> set (map fst fs)" "take (length dir + 1) p = dir @ ''/''"
    "CHR ''/'' \<notin> set (drop (length dir + 1) p)" "drop (length dir + 1) p = n"
    unfolding listdir_def Let_def by auto
  have "take (length dir + 1) p @ drop (length dir + 1) p = p"
    by (rule append_take_drop_id)
  then have "(dir @ ''/'') @ n = p" by (simp only: p(2) p(4))
  then have "p = dir @ ''/'' @ n" by simp
  with p(1,3,4) show "dir @ ''/'' @ n \<in> set (map fst fs) \<and> CHR ''/'' \<notin> set n" by simp
next
  assume a: "dir @ ''/'' @ n \<in> set (map fst fs) \<and> CHR ''/'' \<notin> set n"
  let ?p = "dir @ ''/'' @ n"
  have t: "take (length dir + 1) ?p = dir @ ''/''" and d: "drop (length dir + 1) ?p = n"
    by simp_all
  have "?p \<in> set (filter (\<lambda>p. take (length dir + 1) p = dir @ ''/'' \<and>
            CHR ''/'' \<notin> set (drop (length dir + 1) p)) (map fst fs))"
    using a t d by simp
  then have "drop (length dir + 1) ?p \<in> set (listdir dir fs)"
    unfolding listdir_def Let_def by (simp only: set_map) (rule imageI)
  then show "n \<in> set (listdir dir fs)" by (simp only: d)
qed

lemma write_file_names: "set (map fst (write_file p c fs)) = insert p (set (map fst fs))"
proof (induction fs)
  case Nil
  show ?case by simp
next
  case (Cons a fs)
  obtain q d where a: "a = (q, d)" by (cases a)
  show ?case
  proof (cases "q = p")
    case True
    then show ?thesis by (simp add: a)
  next
    case False
    then show ?thesis using Cons.IH by (simp add: a insert_commute)
  qed
qed

lemma map_of_write_file: "map_of (write_file p c fs) p = Some c"
  by (induction fs) auto

lemma py_max_Max:
  assumes "xs \<noteq> []" shows "py_max xs = Some (Max (set xs))"
proof (cases xs)
  case Nil
  with assms show ?thesis by simp
next
  case (Cons y ys)
  have "Max (set (y # ys)) = fold max ys y" by (rule Max.set_eq_fold)
  then show ?thesis unfolding Cons by (simp only: py_max.simps)
qed


lemma file_latest_rule:
  assumes "database_url w = []" "fs_fault env = None"
  shows "({n \<in> set (listdir ''data'' (files w)). \<exists>rest. n = device_id @ ''_'' @ rest} = {} \<longrightarrow>
           fst (get_latest_data env device_id w) =
             Inr (JObj [(''error'', JStr ''No data found for device'')], 404)) \<and>
         ({n \<in> set (listdir ''data'' (files w)). \<exists>rest. n = device_id @ ''_'' @ rest} \<noteq> {} \<longrightarrow>
           (\<exists>body. map_of (files w)
                (''data/'' @ Max {n \<in> set (listdir ''data'' (files w)). \<exists>rest. n = device_id @ ''_'' @ rest})
                  = Some body \<and>
              fst (get_latest_data env device_id w) = Inr (body, 200)))"
proof -
  let ?C = "{n \<in> set (listdir ''data'' (files w)). \<exists>rest. n = device_id @ ''_'' @ rest}"
  let ?xs = "filter (\<lambda>f. startswith f (device_id @ ''_'')) (listdir ''data'' (files w))"
  have C: "set ?xs = ?C" by (auto simp add: startswith_iff)
  show ?thesis
  proof (intro conjI impI)
    assume "?C = {}"
    then have "set ?xs = {}" by (simp only: C)
    then have "?xs = []" by (simp only: set_empty)
    then show "fst (get_latest_data env device_id w) =
             Inr (JObj [(''error'', JStr ''No data found for device'')], 404)"
      using assms by (simp add: get_latest_data_file)
  next
    assume ne: "?C \<noteq> {}"
    then have "set ?xs \<noteq> {}" unfolding C .
    then have "?xs \<noteq> []" by (simp only: set_empty simp_thms)
    then have "py_max ?xs = Some (Max (set ?xs))" by (rule py_max_Max)
    then have m: "py_max ?xs = Some (Max ?C)" by (simp only: C)
    have "finite ?C" by simp
    then have "Max ?C \<in> ?C" using ne by (rule Max_in)
    then have "Max ?C \<in> set (listdir ''data'' (files w))" by simp
    then have "''data/'' @ Max ?C \<in> fst ` set (files w)" by (simp add: listdir_mem)
    then have "map_of (files w) (''data/'' @ Max ?C) \<noteq> None"
      by (simp only: map_of_eq_None_iff not_not)
    then obtain body where b: "map_of (files w) (''data/'' @ Max ?C) = Some body"
      by blast
    have "fst (get_latest_data env device_id w) = Inr (body, 200)"
      unfolding get_latest_data_file [OF assms] by (simp only: m b option.case fst_conv)
    with b show "\<exists>body. map_of (files w) (''data/'' @ Max ?C) = Some body \<and>
              fst (get_latest_data env device_id w) = Inr (body, 200)"
      by blast
  qed
qed


lemma listdir_write_file:
  assumes "CHR ''/'' \<notin> set name"
  shows "set (listdir ''data'' (write_file (''data/'' @ name) c fs)) =
           insert name (set (listdir ''data'' fs))"
proof (rule set_eqI)
  fix n
  have e: "''data/'' @ name = ''data'' @ ''/'' @ name" by simp
  have "n \<in> set (listdir ''data'' (write_file (''data/'' @ name) c fs)) =
      ((''data'' @ ''/'' @ n = ''data'' @ ''/'' @ name \<or> ''data'' @ ''/'' @ n \<in> set (map fst fs)) \<and>
       CHR ''/'' \<notin> set n)"
    by (simp only: listdir_mem e write_file_names insert_iff)
  also have "\<dots> = (n = name \<or> n \<in> set (listdir ''data'' fs))"
    using assms by (auto simp only: listdir_mem same_append_eq)
  finally show "n \<in> set (listdir ''data'' (write_file (''data/'' @ name) c fs)) =
      (n \<in> insert name (set (listdir ''data'' fs)))"
    by (simp only: insert_iff)
qed

text \<open>
  C10. Under the file fallback \<open>get_latest_data\<close> chooses among the files of \<open>data\<close>
  whose name is the requested id, an underscore and any rest, whatever device wrote
  them: when there is none the answer is 404, otherwise it is status 200 with the
  content of the greatest of these names. So retrieval is not isolated per device:
  after a reading submitted for a device whose id is the requested id, an underscore
  and any suffix (\<open>a_b\<close> for \<open>a\<close>) is saved, and no stored name of that form is greater
  than the new file's, the GET for the requested id is answered with status 200 and
  that reading.
\<close>

theorem latest_reads_other_device:
  assumes "database_url w = []" "fs_fault env = None"
  shows "({n \<in> set (listdir ''data'' (files w)). \<exists>rest. n = device_id @ ''_'' @ rest} = {} \<longrightarrow>
           fst (get_latest_data env device_id w) =
             Inr (JObj [(''error'', JStr ''No data found for device'')], 404)) \<and>
         ({n \<in> set (listdir ''data'' (files w)). \<exists>rest. n = device_id @ ''_'' @ rest} \<noteq> {} \<longrightarrow>
           (\<exists>body. map_of (files w)
                (''data/'' @ Max {n \<in> set (listdir ''data'' (files w)). \<exists>rest. n = device_id @ ''_'' @ rest})
                  = Some body \<and>
              fst (get_latest_data env device_id w) = Inr (body, 200))) \<and>
         (\<forall>data suffix.
            dict_get data ''device_id'' (JStr ''unknown'') = JStr (device_id @ ''_'' @ suffix) \<and>
            CHR ''/'' \<notin> set device_id \<and> CHR ''/'' \<notin> set suffix \<and>
            (\<forall>n \<in> set (listdir ''data'' (files w)).
               (\<exists>rest. n = device_id @ ''_'' @ rest) \<longrightarrow>
                 n \<le> file_name (device_id @ ''_'' @ suffix) (clock env)) \<longrightarrow>
            fst (get_latest_data env device_id (snd (save_data env data w))) = Inr (JObj data, 200))"
proof (intro conjI allI impI)
  show "{n \<in> set (listdir ''data'' (files w)). \<exists>rest. n = device_id @ ''_'' @ rest} = {} \<Longrightarrow>
           fst (get_latest_data env device_id w) =
             Inr (JObj [(''error'', JStr ''No data found for device'')], 404)"
    using file_latest_rule [OF assms, of device_id] by blast
next
  show "{n \<in> set (listdir ''data'' (files w)). \<exists>rest. n = device_id @ ''_'' @ rest} \<noteq> {} \<Longrightarrow>
           (\<exists>body. map_of (files w)
                (''data/'' @ Max {n \<in> set (listdir ''data'' (files w)). \<exists>rest. n = device_id @ ''_'' @ rest})
                  = Some body \<and>
              fst (get_latest_data env device_id w) = Inr (body, 200))"
    using file_latest_rule [OF assms, of device_id] by blast
next
  fix data suffix
  let ?N = "file_name (device_id @ ''_'' @ suffix) (clock env)"
  let ?C = "{n \<in> set (listdir ''data'' (files w)). \<exists>rest. n = device_id @ ''_'' @ rest}"
  let ?w = "w\<lparr>files := write_file (''data/'' @ ?N) (JObj data) (files w)\<rparr>"
  let ?C' = "{n \<in> set (listdir ''data'' (files ?w)). \<exists>rest. n = device_id @ ''_'' @ rest}"
  assume h: "dict_get data ''device_id'' (JStr ''unknown'') = JStr (device_id @ ''_'' @ suffix) \<and>
            CHR ''/'' \<notin> set device_id \<and> CHR ''/'' \<notin> set suffix \<and>
            (\<forall>n \<in> set (listdir ''data'' (files w)).
               (\<exists>rest. n = device_id @ ''_'' @ rest) \<longrightarrow> n \<le> ?N)"
  have w': "snd (save_data env data w) = ?w"
    using assms h by (simp add: save_data_file)
  have u: "database_url ?w = []" using assms(1) by simp
  have "CHR ''/'' \<notin> set (device_id @ ''_'' @ suffix)" using h by simp
  then have sl: "CHR ''/'' \<notin> set ?N" by (rule slash_notin_file_name)
  have fw: "files ?w = write_file (''data/'' @ ?N) (JObj data) (files w)" by simp
  from sl have l: "set (listdir ''data'' (files ?w)) = insert ?N (set (listdir ''data'' (files w)))"
    unfolding fw by (rule listdir_write_file)
  have pre: "\<exists>rest. ?N = device_id @ ''_'' @ rest"
    by (simp add: file_name_def)
  have C': "?C' = insert ?N ?C"
    unfolding l using pre by blast
  have le: "\<And>n. n \<in> ?C \<Longrightarrow> n \<le> ?N" using h by blast
  have "finite ?C" by simp
  then have mx: "Max (insert ?N ?C) = ?N" using le by (rule Max_insert2)
  have ne: "?C' \<noteq> {}" unfolding C' by simp
  from file_latest_rule [OF u assms(2), of device_id] ne
  obtain body where b: "map_of (files ?w) (''data/'' @ Max ?C') = Some body"
    and r: "fst (get_latest_data env device_id ?w) = Inr (body, 200)"
    by blast
  have "map_of (files ?w) (''data/'' @ ?N) = Some (JObj data)"
    unfolding fw by (rule map_of_write_file)
  then have "body = JObj data" using b unfolding C' mx by simp
  with r show "fst (get_latest_data env device_id (snd (save_data env data w))) = Inr (JObj data, 200)"
    unfolding w' by simp
qed

theorem latest_reads_other_device_witness:
  "snd (save_data plain_env (reading ''a_b'' 21) file_world) = file_world_a_b \<and>
   map_of (reading ''a_b'' 21) ''device_id'' = Some (JStr ''a_b'') \<and>
   fst (get_latest_data plain_env ''a'' (snd (save_data plain_env (reading ''a_b'' 21) file_world))) =
     Inr (JObj (reading ''a_b'' 21), 200) \<and>
   fst (get_latest_data plain_env ''a'' file_world_a_b) = Inr (JObj (reading ''a_b'' 21), 200) \<and>
   fst (get_latest_data plain_env ''zzz'' file_world_a_b) =
     Inr (JObj [(''error'', JStr ''No data found for device'')], 404)"
proof -
  have u: "database_url file_world = []" "database_url file_world_a_b = []"
    "fs_fault plain_env = None"
    by (simp_all add: file_world_def file_world_a_b_def plain_env_def)
  have s: "snd (save_data plain_env (reading ''a_b'' 21) file_world) = file_world_a_b"
    using save_reading_file [of file_world noon "''a_b''" 21]
    by (simp add: plain_env_clock file_world_def file_world_a_b_def file_name_noon)
  have d: "map_of (reading ''a_b'' 21) ''device_id'' = Some (JStr ''a_b'')"
    by (simp add: reading_def)
  have l: "listdir ''data'' (files file_world_a_b) = [''a_b_2024-01-01T12-00-00.json'']"
    by (simp add: listdir_def file_world_a_b_def file_world_def)
  have l0: "listdir ''data'' (files file_world) = []"
    by (simp add: listdir_def file_world_def)
  have h: "dict_get (reading ''a_b'' 21) ''device_id'' (JStr ''unknown'') = JStr (''a'' @ ''_'' @ ''b'') \<and>
      CHR ''/'' \<notin> set ''a'' \<and> CHR ''/'' \<notin> set ''b'' \<and>
      (\<forall>n \<in> set (listdir ''data'' (files file_world)).
         (\<exists>rest. n = ''a'' @ ''_'' @ rest) \<longrightarrow> n \<le> file_name (''a'' @ ''_'' @ ''b'') (clock plain_env))"
    by (simp add: l0 dict_get_def reading_def)
  have 1: "fst (get_latest_data plain_env ''a''
        (snd (save_data plain_env (reading ''a_b'' 21) file_world))) =
     Inr (JObj (reading ''a_b'' 21), 200)"
    using latest_reads_other_device [OF u(1) u(3), of "''a''"] h by blast
  have ca: "{n \<in> set (listdir ''data'' (files file_world_a_b)). \<exists>rest. n = ''a'' @ ''_'' @ rest} =
      {''a_b_2024-01-01T12-00-00.json''}"
    unfolding l by auto
  have cz: "{n \<in> set (listdir ''data'' (files file_world_a_b)). \<exists>rest. n = ''zzz'' @ ''_'' @ rest} = {}"
    unfolding l by auto
  have 2: "fst (get_latest_data plain_env ''a'' file_world_a_b) = Inr (JObj (reading ''a_b'' 21), 200)"
    using latest_reads_other_device [OF u(2) u(3), of "''a''"]
    unfolding ca by (simp add: file_world_a_b_def)
  have 3: "fst (get_latest_data plain_env ''zzz'' file_world_a_b) =
     Inr (JObj [(''error'', JStr ''No data found for device'')], 404)"
    using latest_reads_other_device [OF u(2) u(3), of "''zzz''"] cz by blast
  show ?thesis using s d 1 2 3 by simp
qed

end
